theory Spec2Isabelle
  imports Main "HOL-Library.Word"
begin

section \<open>Errors, JSON values and requests\<close>

text \<open>
  The errors of @wymp/http-errors that the sources construct, each with its message and
  its optional machine code (subcode), and the \<open>URIError\<close> of status 400 that the router
  raises, with its message, for a path parameter that does not decode. A thrown error, or
  one handed to \<open>next\<close>, is the \<open>Inl\<close> side of a result.
\<close>

datatype http_error =
    BadRequest string "string option"
  | Unauthorized string "string option"
  | Forbidden string "string option"
  | NotFound string "string option"
  | UnsupportedMediaType string "string option"
  | InternalServerError string "string option"
  | URIError string

fun subcode :: "http_error \<Rightarrow> string option" where
  "subcode (BadRequest m c) = c"
| "subcode (Unauthorized m c) = c"
| "subcode (Forbidden m c) = c"
| "subcode (NotFound m c) = c"
| "subcode (UnsupportedMediaType m c) = c"
| "subcode (InternalServerError m c) = c"
| "subcode (URIError m) = None"

fun isBadRequest :: "http_error \<Rightarrow> bool" where
  "isBadRequest (BadRequest m c) = True"
| "isBadRequest e = False"

fun isNotFound :: "http_error \<Rightarrow> bool" where
  "isNotFound (NotFound m c) = True"
| "isNotFound e = False"

fun isUnsupportedMediaType :: "http_error \<Rightarrow> bool" where
  "isUnsupportedMediaType (UnsupportedMediaType m c) = True"
| "isUnsupportedMediaType e = False"

fun isInternalServerError :: "http_error \<Rightarrow> bool" where
  "isInternalServerError (InternalServerError m c) = True"
| "isInternalServerError e = False"

text \<open>
  A parsed JSON value. An object lists its own properties in order, with distinct keys.
  Of a number the code only ever asks whether it is zero.
\<close>

datatype json =
    JNull
  | JBool bool
  | JNum int
  | JStr string
  | JArr "json list"
  | JObj "(string \<times> json) list"

text \<open>JavaScript truthiness of a parsed value (\<open>!x\<close> is its negation).\<close>

fun truthy :: "json \<Rightarrow> bool" where
  "truthy JNull = False"
| "truthy (JBool b) = b"
| "truthy (JNum n) = (n \<noteq> 0)"
| "truthy (JStr s) = (s \<noteq> [])"
| "truthy (JArr xs) = True"
| "truthy (JObj kvs) = True"

text \<open>\<open>Object.keys(x).length\<close>: properties of an object, indices of an array or a string.\<close>

fun objectKeysLength :: "json \<Rightarrow> nat" where
  "objectKeysLength (JObj kvs) = length kvs"
| "objectKeysLength (JArr xs) = length xs"
| "objectKeysLength (JStr s) = length s"
| "objectKeysLength v = 0"

text \<open>
  The request as the middleware sees it. Header names are stored in lower case, as Node
  delivers them; \<open>auth\<close> is the auth object an earlier middleware may have attached;
  \<open>body\<close> is \<open>None\<close> while \<open>req.body\<close> is undefined.
\<close>

record 'a Request =
  reqMethod :: string
  reqPath :: string
  headers :: "(string \<times> string) list"
  params :: "(string \<times> string) list"
  body :: "json option"
  auth :: "'a option"

text \<open>
  \<open>String.prototype.toLowerCase\<close> on the Latin-1 characters a header or a path can hold:
  A to Z, and the accented capitals 0xC0 to 0xDE but for the multiplication sign 0xD7.
\<close>

definition toLowerChar :: "char \<Rightarrow> char" where
  "toLowerChar c =
     (let n = of_char c :: nat in
      if (65 \<le> n \<and> n \<le> 90) \<or> (192 \<le> n \<and> n \<le> 222 \<and> n \<noteq> 215)
      then char_of (n + 32) else c)"

definition toLowerCase :: "string \<Rightarrow> string" where
  "toLowerCase s = map toLowerChar s"

text \<open>\<open>req.get(name)\<close>: the header of that name, looked up without regard to case.\<close>

definition reqGet :: "('a, 'z) Request_scheme \<Rightarrow> string \<Rightarrow> string option" where
  "reqGet req n = map_of (headers req) (toLowerCase n)"

section \<open>The data store behind \<open>io\<close>\<close>

text \<open>
  Modelled from the spec: the members of the ClientRoles enumeration (section 4.3 names
  external, internal and trusted); the enumeration itself is declared in Types, which is
  not among the sources. The code under study names only \<open>EXTERNAL\<close>.
\<close>

datatype ClientRoles = EXTERNAL | INTERNAL | TRUSTED

record Organization =
  orgId :: string
  orgName :: string

record DbClient =
  id' :: string
  organizationId :: string
  name :: string
  secretBcrypt :: string
  reqsPerSec :: nat

record DbClientRole =
  clientId :: string
  roleId :: ClientRoles

text \<open>The payloads handed to \<open>io.save\<close>, and the queries handed to \<open>io.get\<close>.\<close>

record ClientPayload =
  p_organizationId :: string
  p_name :: string
  p_secretBcrypt :: string
  p_reqsPerSec :: nat

datatype Payload =
    SaveClient ClientPayload
  | SaveClientRole DbClientRole

datatype Query =
    ById string
  | FilterOrganizationId string
  | FilterClientIdIn "string list"

datatype IoCall =
    IoGet string Query
  | IoSave string Payload

text \<open>
  The world a handler runs in: the three tables it touches, the journal of the calls it
  has made on \<open>io\<close>, the number of ids handed out so far and the number of random
  bytes drawn so far.
\<close>

record World =
  organizations :: "Organization list"
  clients :: "DbClient list"
  clientRoles :: "DbClientRole list"
  calls :: "IoCall list"
  nextId :: nat
  drawn :: nat

text \<open>
  The envelope \<open>io.get\<close> returns for a filter query. The code reads its \<open>data\<close>; what
  else the envelope holds goes into the response as it came and is left out here.
\<close>

record 'r Collection =
  data :: "'r list"

definition journal :: "IoCall \<Rightarrow> World \<Rightarrow> World" where
  "journal c w = w\<lparr>calls := calls w @ [c]\<rparr>"

text \<open>
  Modelled from the spec: \<open>io.get(resourceType, query, log, required)\<close> of the Io class,
  which is not among the sources. With a query by id and \<open>required\<close> set, it returns the
  record of that id or raises NotFound (section 7: missing organization or client
  referenced by id).
\<close>

definition io_get_organization :: "string \<Rightarrow> World \<Rightarrow> (http_error + Organization) \<times> World" where
  "io_get_organization i w =
     (case find (\<lambda>row. orgId row = i) (organizations w) of
        None \<Rightarrow> Inl (NotFound ''organizations: no record of this id'' None)
      | Some row \<Rightarrow> Inr row,
      journal (IoGet ''organizations'' (ById i)) w)"

definition io_get_client :: "string \<Rightarrow> World \<Rightarrow> (http_error + DbClient) \<times> World" where
  "io_get_client i w =
     (case find (\<lambda>row. id' row = i) (clients w) of
        None \<Rightarrow> Inl (NotFound ''clients: no record of this id'' None)
      | Some row \<Rightarrow> Inr row,
      journal (IoGet ''clients'' (ById i)) w)"

text \<open>
  Modelled from the spec: \<open>io.get\<close> with a filter query returns the collection of the
  records that satisfy the filter, in stored order.
\<close>

definition io_get_clients_of_org :: "string \<Rightarrow> World \<Rightarrow> DbClient Collection \<times> World" where
  "io_get_clients_of_org org w =
     (\<lparr>data = filter (\<lambda>row. organizationId row = org) (clients w)\<rparr>,
      journal (IoGet ''clients'' (FilterOrganizationId org)) w)"

definition io_get_client_roles :: "string list \<Rightarrow> World \<Rightarrow> DbClientRole Collection \<times> World" where
  "io_get_client_roles ids w =
     (\<lparr>data = filter (\<lambda>row. clientId row \<in> set ids) (clientRoles w)\<rparr>,
      journal (IoGet ''client-roles'' (FilterClientIdIn ids)) w)"

text \<open>
  Modelled from the spec: \<open>io.save(resourceType, payload, callerAuth, log)\<close> stores the
  payload as a new record and returns that record. The id of a new client comes from
  the id generator \<open>newId\<close>, numbered by the ids handed out so far.
\<close>

definition io_save_client ::
  "(nat \<Rightarrow> string) \<Rightarrow> ClientPayload \<Rightarrow> 'a \<Rightarrow> World \<Rightarrow> DbClient \<times> World" where
  "io_save_client newId p a w =
     (let row = \<lparr>id' = newId (nextId w), organizationId = p_organizationId p,
                 name = p_name p, secretBcrypt = p_secretBcrypt p,
                 reqsPerSec = p_reqsPerSec p\<rparr>
      in (row, journal (IoSave ''clients'' (SaveClient p))
                 (w\<lparr>clients := clients w @ [row], nextId := nextId w + 1\<rparr>)))"

definition io_save_client_role :: "DbClientRole \<Rightarrow> 'a \<Rightarrow> World \<Rightarrow> DbClientRole \<times> World" where
  "io_save_client_role p a w =
     (p, journal (IoSave ''client-roles'' (SaveClientRole p))
           (w\<lparr>clientRoles := clientRoles w @ [p]\<rparr>))"

section \<open>The clients module\<close>

text \<open>The client as the API returns it: its id, its roles, and whatever else the translator adds.\<close>

record ApiClient =
  apiId :: string
  roles :: "ClientRoles list"

datatype 'c OneOrMany = One 'c | Many "'c list"

text \<open>
  \<open>addRoles\<close>: one read of the client-roles of all the ids at hand, then each client
  gets the role ids of the rows that carry its id.
\<close>

definition addRoles ::
  "('z ApiClient_scheme) OneOrMany \<Rightarrow> World \<Rightarrow> ('z ApiClient_scheme) OneOrMany \<times> World" where
  "addRoles clientOrClients w =
     (let clientIds = (case clientOrClients of Many cs \<Rightarrow> map apiId cs | One c \<Rightarrow> [apiId c]);
          (rs, w') = io_get_client_roles clientIds w;
          add = (\<lambda>client.
                   client\<lparr>roles := map roleId (filter (\<lambda>row. clientId row = apiId client) (data rs))\<rparr>)
      in (case clientOrClients of Many cs \<Rightarrow> Many (map add cs) | One c \<Rightarrow> One (add c), w'))"

text \<open>
  What the handlers use and the sources do not hold, taken as parameters:
  \<^item> \<open>assertAuthdReq\<close> (\<open>Http.assertAuthdReq\<close>) raises, or narrows the request to one
    that carries an auth object, which it yields;
  \<^item> \<open>assertAuth\<close> (\<open>Common.assertAuth\<close>) raises or passes;
  \<^item> \<open>authorizeCallerForRole\<close> (OrgMemberships) looks at the store and raises or passes;
  \<^item> \<open>dbToApi\<close> (\<open>T.Clients.dbToApi\<close>) translates a stored client;
  \<^item> \<open>InvalidBodyError\<close> (Lib) makes the error for a body the validator rejects;
  \<^item> \<open>bcryptHash\<close> (\<open>bcrypt.hash\<close>) with the secret, the rounds and the salt bytes;
  \<^item> \<open>entropy\<close>, the bytes \<open>randomBytes\<close> delivers, numbered as they are drawn;
  \<^item> \<open>newId\<close>, the id generator of the store.
\<close>

record ('a, 'z) Deps =
  assertAuthdReq :: "'a Request \<Rightarrow> http_error + 'a"
  assertAuth :: "'a \<Rightarrow> http_error option"
  authorizeCallerForRole :: "string \<Rightarrow> 'a \<Rightarrow> string \<Rightarrow> World \<Rightarrow> http_error option"
  dbToApi :: "DbClient \<Rightarrow> 'z ApiClient_scheme"
  InvalidBodyError :: "json option \<Rightarrow> http_error"
  bcryptHash :: "string \<Rightarrow> nat \<Rightarrow> 8 word list \<Rightarrow> string"
  entropy :: "nat \<Rightarrow> 8 word"
  newId :: "nat \<Rightarrow> string"

text \<open>\<open>randomBytes(n)\<close>: the next \<open>n\<close> bytes of the entropy source.\<close>

definition randomBytes :: "('a, 'z) Deps \<Rightarrow> nat \<Rightarrow> World \<Rightarrow> 8 word list \<times> World" where
  "randomBytes r n w = (map (entropy r) [drawn w ..< drawn w + n], w\<lparr>drawn := drawn w + n\<rparr>)"

text \<open>\<open>Buffer.toString("hex")\<close>: two lower-case hexadecimal digits for every byte.\<close>

definition hexDigit :: "nat \<Rightarrow> char" where
  "hexDigit n = ''0123456789abcdef'' ! (n mod 16)"

definition toHex :: "8 word list \<Rightarrow> string" where
  "toHex bs = concat (map (\<lambda>b. [hexDigit (unat b div 16), hexDigit (unat b mod 16)]) bs)"

text \<open>
  \<open>createClient\<close>; \<open>newClient\<close> is the pair of \<open>organizationId\<close> and \<open>name\<close>. The
  secret is 32 random bytes in hexadecimal; \<open>bcrypt.hash\<close> with 10 rounds draws its 16
  salt bytes from the same source. The client is saved with the hash and a budget of
  10, then its one role; the stored client comes back paired with the raw secret.
\<close>

definition createClient ::
  "('a, 'z) Deps \<Rightarrow> string \<times> string \<Rightarrow> 'a \<Rightarrow> World \<Rightarrow> (DbClient \<times> string) \<times> World" where
  "createClient r newClient a w =
     (let (bytes, w1) = randomBytes r 32 w;
          secret = toHex bytes;
          (salt, w2) = randomBytes r 16 w1;
          hashed = bcryptHash r secret 10 salt;
          (client, w3) = io_save_client (newId r)
             \<lparr>p_organizationId = fst newClient, p_name = snd newClient,
              p_secretBcrypt = hashed, p_reqsPerSec = 10\<rparr> a w2;
          (role, w4) = io_save_client_role \<lparr>clientId = id' client, roleId = EXTERNAL\<rparr> a w3
      in ((client, secret), w4))"

text \<open>
  \<open>PostClientValidator\<close>: an object whose \<open>data\<close> is an object with \<open>type\<close> the
  literal "clients" and \<open>name\<close> a string. The result is the name, as that is all the
  handler reads of a valid body.
\<close>

definition PostClientValidator :: "json option \<Rightarrow> string option" where
  "PostClientValidator b =
     (case b of
        Some (JObj kvs) \<Rightarrow>
          (case map_of kvs ''data'' of
             Some (JObj d) \<Rightarrow>
               (case (map_of d ''type'', map_of d ''name'') of
                  (Some (JStr t), Some (JStr n)) \<Rightarrow> if t = ''clients'' then Some n else None
                | _ \<Rightarrow> None)
           | _ \<Rightarrow> None)
      | _ \<Rightarrow> None)"

text \<open>What a handler sends: the status and the body, single or collection.\<close>

datatype 'z ResponseBody =
    Single "'z ApiClient_scheme"
  | SingleWithSecret "'z ApiClient_scheme" string
  | CollectionOf "'z ApiClient_scheme list"

datatype 'z Response = Response nat "'z ResponseBody"

definition badParams :: http_error where
  "badParams = InternalServerError
     (''Programmer: This endpoint is not set up correctly. Expecting 'orgId' url parameter, '' @
      ''but it was missing.'')
     (Some ''GET-CLIENTS-BAD-PARAMS'')"

definition clientNotFound :: http_error where
  "clientNotFound = NotFound
     ''The client id you've requested was not found in our system.''
     (Some ''GET-CLIENT_CLIENT-NOT-FOUND'')"

text \<open>A route parameter that is absent or the empty string is falsy.\<close>

definition param :: "('a, 'y) Request_scheme \<Rightarrow> string \<Rightarrow> string option" where
  "param req k = (case map_of (params req) k of Some v \<Rightarrow> (if v = [] then None else Some v) | None \<Rightarrow> None)"

text \<open>
  The overloaded signature of \<open>addRoles\<close> types the result as the argument was: a
  single client for a single client, an array for an array.
\<close>

definition asSingle :: "'c OneOrMany \<Rightarrow> 'c" where
  "asSingle x = (case x of One c \<Rightarrow> c | Many cs \<Rightarrow> hd cs)"

definition asArray :: "'c OneOrMany \<Rightarrow> 'c list" where
  "asArray x = (case x of One c \<Rightarrow> [c] | Many cs \<Rightarrow> cs)"

text \<open>
  \<open>getClientsForOrgHandler\<close>. The result is the error handed to \<open>next\<close> or the response
  sent, with the world as the handler leaves it.
\<close>

definition getClientsForOrgHandler ::
  "('a, 'z) Deps \<Rightarrow> 'a Request \<Rightarrow> World \<Rightarrow> (http_error + 'z Response) \<times> World" where
  "getClientsForOrgHandler r req w =
     (case assertAuthdReq r req of
        Inl e \<Rightarrow> (Inl e, w)
      | Inr a \<Rightarrow>
     (case assertAuth r a of
        Some e \<Rightarrow> (Inl e, w)
      | None \<Rightarrow>
     (case param req ''orgId'' of
        None \<Rightarrow> (Inl badParams, w)
      | Some oid \<Rightarrow>
     (case io_get_organization oid w of
        (Inl e, w1) \<Rightarrow> (Inl e, w1)
      | (Inr org, w1) \<Rightarrow>
     (case authorizeCallerForRole r oid a ''read'' w1 of
        Some e \<Rightarrow> (Inl e, w1)
      | None \<Rightarrow>
     (case param req ''id'' of
        Some cid \<Rightarrow>
          (case io_get_client cid w1 of
             (Inl e, w2) \<Rightarrow> (Inl e, w2)
           | (Inr client, w2) \<Rightarrow>
               if organizationId client \<noteq> oid then (Inl clientNotFound, w2)
               else (case addRoles (One (dbToApi r client)) w2 of
                       (res, w3) \<Rightarrow> (Inr (Response 200 (Single (asSingle res))), w3)))
      | None \<Rightarrow>
          (case io_get_clients_of_org oid w1 of
             (found, w2) \<Rightarrow>
               (case addRoles (Many (map (dbToApi r) (data found))) w2 of
                  (res, w3) \<Rightarrow> (Inr (Response 200 (CollectionOf (asArray res))), w3)))))))))"

text \<open>\<open>postClientHandler\<close>.\<close>

definition postClientHandler ::
  "('a, 'z) Deps \<Rightarrow> 'a Request \<Rightarrow> World \<Rightarrow> (http_error + 'z Response) \<times> World" where
  "postClientHandler r req w =
     (case assertAuthdReq r req of
        Inl e \<Rightarrow> (Inl e, w)
      | Inr a \<Rightarrow>
     (case assertAuth r a of
        Some e \<Rightarrow> (Inl e, w)
      | None \<Rightarrow>
     (case param req ''orgId'' of
        None \<Rightarrow> (Inl badParams, w)
      | Some oid \<Rightarrow>
     (case PostClientValidator (body req) of
        None \<Rightarrow> (Inl (InvalidBodyError r (body req)), w)
      | Some clientName \<Rightarrow>
     (case io_get_organization oid w of
        (Inl e, w1) \<Rightarrow> (Inl e, w1)
      | (Inr org, w1) \<Rightarrow>
     (case authorizeCallerForRole r oid a ''manage'' w1 of
        Some e \<Rightarrow> (Inl e, w1)
      | None \<Rightarrow>
     (case createClient r (oid, clientName) a w1 of
        ((client, secret), w2) \<Rightarrow>
     (case addRoles (One (dbToApi r client)) w2 of
        (res, w3) \<Rightarrow>
          (Inr (Response 201 (SingleWithSecret (asSingle res) secret)), w3)))))))))"

section \<open>The accounts module: body parsing and route registration\<close>

text \<open>
  What a middleware does with a request: it passes it on (\<open>next()\<close>), possibly changed,
  it fails it (\<open>next(e)\<close>), or it sends a response itself.
\<close>

datatype 'a Outcome = Next "'a Request" | Fail http_error | Sent

definition sq :: string where
  "sq = [CHR 0x27]"

definition unsupportedMediaType :: "string option \<Rightarrow> http_error" where
  "unsupportedMediaType contentType = UnsupportedMediaType
     (''Your request must have a 'Content-Type' header with value 'application/json'.'' @
      (case contentType of
         Some ct \<Rightarrow> if ct \<noteq> [] then '' You passed '' @ sq @ ct @ sq @ ''.''
                    else ''You did not pass a content-type header.''
       | None \<Rightarrow> ''You did not pass a content-type header.''))
     None"

definition blankBody :: "string option \<Rightarrow> http_error" where
  "blankBody contentType = BadRequest
     (''The body of your request is blank or does not appear to have been parsed correctly. '' @
      ''Please be sure to pass a content-type header with the value 'application/json'. '' @
      (case contentType of
         Some ct \<Rightarrow> if ct \<noteq> [] then ''You passed 'Content-Type: '' @ ct @ sq @ ''.''
                    else ''You did not pass a content-type header.''
       | None \<Rightarrow> ''You did not pass a content-type header.''))
     None"

text \<open>\<open>!contentType || contentType.toLowerCase() !== "application/json"\<close>\<close>

definition badContentType :: "string option \<Rightarrow> bool" where
  "badContentType contentType =
     (case contentType of
        None \<Rightarrow> True
      | Some ct \<Rightarrow> ct = [] \<or> toLowerCase ct \<noteq> ''application/json'')"

text \<open>\<open>!req.body || Object.keys(req.body).length === 0\<close>\<close>

definition bodyIsBlank :: "json option \<Rightarrow> bool" where
  "bodyIsBlank b = (case b of None \<Rightarrow> True | Some v \<Rightarrow> \<not> truthy v \<or> objectKeysLength v = 0)"

text \<open>
  \<open>getParseBodyFunc\<close>. The parser \<open>Parsers.json()\<close> of the framework is a parameter: it
  reports an error, or leaves in \<open>req.body\<close> what it has parsed (\<open>None\<close>: undefined).
\<close>

definition getParseBodyFunc ::
  "('a Request \<Rightarrow> http_error + json option) \<Rightarrow> bool \<Rightarrow> 'a Request \<Rightarrow> 'a Outcome" where
  "getParseBodyFunc json allowBlankBodies req =
     (let contentType = reqGet req ''content-type'' in
      if badContentType contentType then Fail (unsupportedMediaType contentType)
      else (case json req of
              Inl e \<Rightarrow> Fail e
            | Inr b \<Rightarrow>
                if \<not> allowBlankBodies \<and> bodyIsBlank b
                then Fail (blankBody contentType)
                else Next (req\<lparr>body := b\<rparr>)))"

definition parseBody :: "('a Request \<Rightarrow> http_error + json option) \<Rightarrow> 'a Request \<Rightarrow> 'a Outcome" where
  "parseBody json = getParseBodyFunc json False"

definition parseBodyAllowBlank ::
  "('a Request \<Rightarrow> http_error + json option) \<Rightarrow> 'a Request \<Rightarrow> 'a Outcome" where
  "parseBodyAllowBlank json = getParseBodyFunc json True"

text \<open>The handlers \<open>register\<close> mounts; their code is in the sibling modules.\<close>

datatype HandlerName =
    GetOrganizations | PostOrganizations | PatchOrganization | DeleteOrganizationHandler
  | GetUsers | GetUserById | PostUsers | PatchUsers | PostChangePasswordHandler | DeleteUsers
  | GetByUserIdHandler | GetByOrganizationIdHandler | PostOrgMembershipHandler
  | PatchOrgMembershipHandler | DeleteOrgMembershipHandler
  | HandleGetAllSessions | HandleGetUserSessions
  | HandlePostSessionsLoginEmail | HandlePostSessionsLoginPassword
  | HandlePostSessionsLoginCode | HandlePostSessionsLoginTotp
  | HandlePostSessionsRefresh | HandlePostSessionsLogout

datatype StackItem =
    ParseBody
  | ParseBodyAllowBlank
  | Handler HandlerName
  | UnknownEndpoint

text \<open>One registration: the verb (\<open>None\<close> for \<open>all\<close>), the paths and the middleware stack.\<close>

record Route =
  verb :: "string option"
  paths :: "string list"
  stack :: "StackItem list"

definition route :: "string option \<Rightarrow> string list \<Rightarrow> StackItem list \<Rightarrow> Route" where
  "route v ps st = \<lparr>verb = v, paths = ps, stack = st\<rparr>"

text \<open>\<open>register\<close>: the registrations, in the order the code makes them.\<close>

definition register :: "Route list" where
  "register =
   [route (Some ''get'') [''/accounts/v1/organizations'', ''/accounts/v1/organizations/:id'']
      [Handler GetOrganizations],
    route (Some ''post'') [''/accounts/v1/organizations''] [ParseBody, Handler PostOrganizations],
    route (Some ''patch'') [''/accounts/v1/organizations/:id'']
      [ParseBody, Handler PatchOrganization],
    route (Some ''delete'') [''/accounts/v1/organizations/:id'']
      [Handler DeleteOrganizationHandler],
    route (Some ''get'') [''/accounts/v1/users''] [Handler GetUsers],
    route (Some ''get'') [''/accounts/v1/users/:id''] [Handler GetUserById],
    route (Some ''post'') [''/accounts/v1/users''] [ParseBody, Handler PostUsers],
    route (Some ''patch'') [''/accounts/v1/users/:id''] [ParseBody, Handler PatchUsers],
    route (Some ''post'') [''/accounts/v1/users/:id/change-password'']
      [ParseBody, Handler PostChangePasswordHandler],
    route (Some ''delete'') [''/accounts/v1/users/:id''] [Handler DeleteUsers],
    route (Some ''get'') [''/accounts/v1/users/:id/memberships''] [Handler GetByUserIdHandler],
    route (Some ''get'') [''/accounts/v1/organizations/:id/memberships'']
      [Handler GetByOrganizationIdHandler],
    route (Some ''post'') [''/accounts/v1/organizations/:id/memberships'']
      [ParseBody, Handler PostOrgMembershipHandler],
    route (Some ''patch'') [''/accounts/v1/org-memberships/:id'']
      [Handler PatchOrgMembershipHandler],
    route (Some ''delete'') [''/accounts/v1/org-memberships/:id'']
      [Handler DeleteOrgMembershipHandler],
    route (Some ''get'') [''/accounts/v1/sessions''] [Handler HandleGetAllSessions],
    route (Some ''get'') [''/accounts/v1/users/:id/sessions''] [Handler HandleGetUserSessions],
    route (Some ''post'') [''/accounts/v1/sessions/login/email'']
      [ParseBody, Handler HandlePostSessionsLoginEmail],
    route (Some ''post'') [''/accounts/v1/sessions/login/password'']
      [ParseBody, Handler HandlePostSessionsLoginPassword],
    route (Some ''post'') [''/accounts/v1/sessions/login/code'']
      [ParseBody, Handler HandlePostSessionsLoginCode],
    route (Some ''post'') [''/accounts/v1/sessions/login/totp'']
      [ParseBody, Handler HandlePostSessionsLoginTotp],
    route (Some ''post'') [''/accounts/v1/sessions/refresh'']
      [ParseBody, Handler HandlePostSessionsRefresh],
    route (Some ''post'') [''/accounts/v1/sessions/logout'']
      [ParseBodyAllowBlank, Handler HandlePostSessionsLogout],
    route None [''/accounts/v1/*''] [UnknownEndpoint]]"

definition unknownEndpoint :: "('a, 'y) Request_scheme \<Rightarrow> http_error" where
  "unknownEndpoint req = BadRequest
     (''Unknown Endpoint: '' @ reqMethod req @ '' '' @ reqPath req)
     (Some ''ACCOUNTS-UNKNOWN-ENDPOINT'')"

subsection \<open>The router the registrations are made on\<close>

text \<open>
  The HTTP server is the framework's, an Express application. A path pattern is read as
  Express reads it: \<open>:name\<close> stands for one or more characters other than a slash,
  \<open>*\<close> for any characters, everything else for itself without regard to case, and one
  trailing slash is optional.
\<close>

datatype PathToken = Lit char | Param | Star

definition isWordChar :: "char \<Rightarrow> bool" where
  "isWordChar c =
     (let n = of_char c :: nat in
      (48 \<le> n \<and> n \<le> 57) \<or> (65 \<le> n \<and> n \<le> 90) \<or> n = 95 \<or> (97 \<le> n \<and> n \<le> 122))"

function pathTokens :: "string \<Rightarrow> PathToken list" where
  "pathTokens [] = []"
| "pathTokens (c # cs) =
     (if c = CHR '':'' then Param # pathTokens (dropWhile isWordChar cs)
      else if c = CHR ''*'' then Star # pathTokens cs
      else Lit c # pathTokens cs)"
  by pat_completeness auto
termination
  by (relation "measure length") (auto simp: le_imp_less_Suc length_dropWhile_le)

text \<open>The first element of a list, in order, for which \<open>f\<close> has a result.\<close>

fun firstSome :: "('a \<Rightarrow> 'b option) \<Rightarrow> 'a list \<Rightarrow> 'b option" where
  "firstSome f [] = None"
| "firstSome f (x # xs) = (case f x of Some y \<Rightarrow> Some y | None \<Rightarrow> firstSome f xs)"

text \<open>
  The match of a pattern against a path, with what \<open>:name\<close> and \<open>*\<close> have captured, in
  order. As in the regular expression the pattern stands for, a \<open>:name\<close> takes as few
  characters as will do and a \<open>*\<close> as many.
\<close>

fun matchCaptures :: "PathToken list \<Rightarrow> string \<Rightarrow> string list option" where
  "matchCaptures [] s = (if s = [] \<or> s = ''/'' then Some [] else None)"
| "matchCaptures (Lit c # ts) s =
     (case s of
        [] \<Rightarrow> None
      | d # s' \<Rightarrow> if toLowerChar d = toLowerChar c then matchCaptures ts s' else None)"
| "matchCaptures (Param # ts) s =
     firstSome
       (\<lambda>n. case matchCaptures ts (drop n s) of None \<Rightarrow> None | Some caps \<Rightarrow> Some (take n s # caps))
       [1 ..< Suc (length (takeWhile (\<lambda>d. d \<noteq> CHR ''/'') s))]"
| "matchCaptures (Star # ts) s =
     firstSome
       (\<lambda>n. case matchCaptures ts (drop n s) of None \<Rightarrow> None | Some caps \<Rightarrow> Some (take n s # caps))
       (rev [0 ..< Suc (length s)])"

definition pathMatches :: "string \<Rightarrow> string \<Rightarrow> bool" where
  "pathMatches pattern p = (matchCaptures (pathTokens pattern) p \<noteq> None)"

text \<open>
  Express decodes every capture of a matching pattern with \<open>decodeURIComponent\<close>, which
  fails on a percent sign that two hexadecimal digits do not follow, and on escaped
  bytes beyond 0x7F that are not the well-formed UTF-8 encoding of one character: the
  lead byte tells the length of the sequence (two to four bytes), each further byte is
  an escape of its own, and the sequence must be neither overlong, nor a surrogate, nor
  beyond U+10FFFF. \<open>decodesFrom k s\<close> skips \<open>k\<close> characters already checked.
\<close>

definition isHexDigit :: "char \<Rightarrow> bool" where
  "isHexDigit c =
     (let n = of_char c :: nat in
      (48 \<le> n \<and> n \<le> 57) \<or> (65 \<le> n \<and> n \<le> 70) \<or> (97 \<le> n \<and> n \<le> 102))"

definition hexValue :: "char \<Rightarrow> nat" where
  "hexValue c =
     (let n = of_char c :: nat in
      if n \<le> 57 then n - 48 else if n \<le> 70 then n - 55 else n - 87)"

fun escapedByte :: "string \<Rightarrow> nat option" where
  "escapedByte (p # h # l # rest) =
     (if p = CHR ''%'' \<and> isHexDigit h \<and> isHexDigit l then Some (16 * hexValue h + hexValue l)
      else None)"
| "escapedByte s = None"

fun escapedBytes :: "nat \<Rightarrow> string \<Rightarrow> nat list option" where
  "escapedBytes 0 s = Some []"
| "escapedBytes (Suc k) s =
     (case escapedByte s of
        None \<Rightarrow> None
      | Some b \<Rightarrow> (case escapedBytes k (drop 3 s) of None \<Rightarrow> None | Some bs \<Rightarrow> Some (b # bs)))"

definition sequenceLength :: "nat \<Rightarrow> nat" where
  "sequenceLength b =
     (if 192 \<le> b \<and> b < 224 then 2 else if 224 \<le> b \<and> b < 240 then 3
      else if 240 \<le> b \<and> b < 248 then 4 else 0)"

definition continuation :: "nat \<Rightarrow> bool" where
  "continuation b = (128 \<le> b \<and> b \<le> 191)"

fun wellFormedUtf8 :: "nat list \<Rightarrow> bool" where
  "wellFormedUtf8 [b0, b1] = (194 \<le> b0 \<and> b0 \<le> 223 \<and> continuation b1)"
| "wellFormedUtf8 [b0, b1, b2] =
     (((b0 = 224 \<and> 160 \<le> b1 \<and> b1 \<le> 191) \<or> (225 \<le> b0 \<and> b0 \<le> 236 \<and> continuation b1) \<or>
       (b0 = 237 \<and> 128 \<le> b1 \<and> b1 \<le> 159) \<or> (238 \<le> b0 \<and> b0 \<le> 239 \<and> continuation b1)) \<and>
      continuation b2)"
| "wellFormedUtf8 [b0, b1, b2, b3] =
     (((b0 = 240 \<and> 144 \<le> b1 \<and> b1 \<le> 191) \<or> (241 \<le> b0 \<and> b0 \<le> 243 \<and> continuation b1) \<or>
       (b0 = 244 \<and> 128 \<le> b1 \<and> b1 \<le> 143)) \<and>
      continuation b2 \<and> continuation b3)"
| "wellFormedUtf8 bs = False"

fun decodesFrom :: "nat \<Rightarrow> string \<Rightarrow> bool" where
  "decodesFrom k [] = True"
| "decodesFrom (Suc k) (c # cs) = decodesFrom k cs"
| "decodesFrom 0 (c # cs) =
     (if c \<noteq> CHR ''%'' then decodesFrom 0 cs
      else (case escapedByte (c # cs) of
              None \<Rightarrow> False
            | Some b \<Rightarrow>
                if b < 128 then decodesFrom 2 cs
                else (case escapedBytes (sequenceLength b) (c # cs) of
                        None \<Rightarrow> False
                      | Some bs \<Rightarrow>
                          sequenceLength b \<noteq> 0 \<and> wellFormedUtf8 bs \<and>
                          decodesFrom (3 * sequenceLength b - 1) cs)))"

definition decodes :: "string \<Rightarrow> bool" where
  "decodes s = decodesFrom 0 s"

text \<open>The error Express makes of the failure, which carries status 400.\<close>

definition failedToDecode :: "string \<Rightarrow> http_error" where
  "failedToDecode v = URIError (''Failed to decode param '' @ sq @ v @ sq)"

text \<open>
  One registration against a path: no pattern of it matches, or the first that matches
  has captures that all decode, or a capture fails to decode (the first that does).
\<close>

datatype Match = NoMatch | Matched | DecodeFailed string

definition layerMatch :: "Route \<Rightarrow> string \<Rightarrow> Match" where
  "layerMatch rt p =
     (case firstSome (\<lambda>pattern. matchCaptures (pathTokens pattern) p) (paths rt) of
        None \<Rightarrow> NoMatch
      | Some caps \<Rightarrow>
          (case find (\<lambda>v. \<not> decodes v) caps of None \<Rightarrow> Matched | Some v \<Rightarrow> DecodeFailed v))"

text \<open>A verb handles the method of that name; \<open>get\<close> handles HEAD too; \<open>all\<close> any method.\<close>

definition verbMatches :: "string option \<Rightarrow> string \<Rightarrow> bool" where
  "verbMatches v m =
     (case v of
        None \<Rightarrow> True
      | Some n \<Rightarrow> toLowerCase m = n \<or> (toLowerCase m = ''head'' \<and> n = ''get''))"

text \<open>
  A registration handles a request when its path matches with captures that decode and
  its verb handles the method. The router stops looking at the first registration that
  handles the request or whose captures fail to decode.
\<close>

definition routeMatches :: "Route \<Rightarrow> ('a, 'y) Request_scheme \<Rightarrow> bool" where
  "routeMatches rt req =
     (layerMatch rt (reqPath req) = Matched \<and> verbMatches (verb rt) (reqMethod req))"

definition routeStops :: "Route \<Rightarrow> ('a, 'y) Request_scheme \<Rightarrow> bool" where
  "routeStops rt req =
     (case layerMatch rt (reqPath req) of
        NoMatch \<Rightarrow> False
      | Matched \<Rightarrow> verbMatches (verb rt) (reqMethod req)
      | DecodeFailed v \<Rightarrow> True)"

text \<open>
  One stack item at work. The handlers are a parameter, as their modules are not at hand.
\<close>

fun runItem ::
  "('a Request \<Rightarrow> http_error + json option) \<Rightarrow> (HandlerName \<Rightarrow> 'a Request \<Rightarrow> 'a Outcome) \<Rightarrow>
   StackItem \<Rightarrow> 'a Request \<Rightarrow> 'a Outcome" where
  "runItem json handlers ParseBody req = parseBody json req"
| "runItem json handlers ParseBodyAllowBlank req = parseBodyAllowBlank json req"
| "runItem json handlers (Handler h) req = handlers h req"
| "runItem json handlers UnknownEndpoint req = Fail (unknownEndpoint req)"

text \<open>
  A stack runs its items in order while they call \<open>next()\<close>; the second component lists
  the items that ran.
\<close>

fun runStack ::
  "('a Request \<Rightarrow> http_error + json option) \<Rightarrow> (HandlerName \<Rightarrow> 'a Request \<Rightarrow> 'a Outcome) \<Rightarrow>
   StackItem list \<Rightarrow> 'a Request \<Rightarrow> 'a Outcome \<times> StackItem list" where
  "runStack json handlers [] req = (Next req, [])"
| "runStack json handlers (m # ms) req =
     (case runItem json handlers m req of
        Next req' \<Rightarrow> (case runStack json handlers ms req' of (out, tr) \<Rightarrow> (out, m # tr))
      | Fail e \<Rightarrow> (Fail e, [m])
      | Sent \<Rightarrow> (Sent, [m]))"

text \<open>
  The router tries the registrations in order. A path is matched before the method is
  looked at, and a capture that fails to decode ends the routing: no later registration
  runs and the request fails with the decode error. A stack that ends in \<open>next()\<close> lets
  the request go on to the later registrations. \<open>Next\<close> at the end means that the
  request leaves the accounts module unanswered, for whatever is mounted after it.
\<close>

fun dispatch ::
  "('a Request \<Rightarrow> http_error + json option) \<Rightarrow> (HandlerName \<Rightarrow> 'a Request \<Rightarrow> 'a Outcome) \<Rightarrow>
   Route list \<Rightarrow> 'a Request \<Rightarrow> 'a Outcome \<times> StackItem list" where
  "dispatch json handlers [] req = (Next req, [])"
| "dispatch json handlers (rt # rts) req =
     (case layerMatch rt (reqPath req) of
        DecodeFailed v \<Rightarrow> (Fail (failedToDecode v), [])
      | NoMatch \<Rightarrow> dispatch json handlers rts req
      | Matched \<Rightarrow>
          if verbMatches (verb rt) (reqMethod req)
          then (case runStack json handlers (stack rt) req of
                  (Next req', tr) \<Rightarrow>
                    (case dispatch json handlers rts req' of (out, tr') \<Rightarrow> (out, tr @ tr'))
                | (out, tr) \<Rightarrow> (out, tr))
          else dispatch json handlers rts req)"

section \<open>The mock cache\<close>

text \<open>
  \<open>mockCache\<close>: \<open>get\<close> calls the compute function and returns what it returns;
  \<open>clear\<close> has an empty body. The compute function is a computation over some state
  \<open>'s\<close>, so that its being called shows.
\<close>

definition mockCache_get :: "string \<Rightarrow> ('s \<Rightarrow> 'v \<times> 's) \<Rightarrow> nat option \<Rightarrow> 's \<Rightarrow> 'v \<times> 's" where
  "mockCache_get k v ttl s = v s"

definition mockCache_clear :: "string option \<Rightarrow> 's \<Rightarrow> unit \<times> 's" where
  "mockCache_clear k s = ((), s)"

text \<open>A client of the cache, for observing it: a sequence of calls, run in order.\<close>

datatype CacheOp = CacheGet string | CacheClear "string option"

fun isGet :: "CacheOp \<Rightarrow> bool" where
  "isGet (CacheGet k) = True"
| "isGet (CacheClear k) = False"

fun runCache :: "(string \<Rightarrow> 's \<Rightarrow> 'v \<times> 's) \<Rightarrow> CacheOp list \<Rightarrow> 's \<Rightarrow> 'v list \<times> 's" where
  "runCache compute [] s = ([], s)"
| "runCache compute (CacheGet k # ops) s =
     (case mockCache_get k (compute k) None s of
        (v, s') \<Rightarrow> (case runCache compute ops s' of (vs, s'') \<Rightarrow> (v # vs, s'')))"
| "runCache compute (CacheClear k # ops) s =
     (case mockCache_clear k s of (u, s') \<Rightarrow> runCache compute ops s')"

text \<open>
  A compute function that shows how often it has been called: the state counts the calls,
  and each call returns its own number, as the handle of the computation it has started.
\<close>

definition startJob :: "nat \<Rightarrow> nat \<times> nat" where
  "startJob n = (n, Suc n)"

section \<open>Notions the properties are stated with\<close>

text \<open>The role ids the store holds for a client id, in stored order.\<close>

definition rolesOf :: "World \<Rightarrow> string \<Rightarrow> ClientRoles list" where
  "rolesOf w i = map roleId (filter (\<lambda>row. clientId row = i) (clientRoles w))"

text \<open>The secret \<open>createClient\<close> draws in world \<open>w\<close>, and the hash it stores for it.\<close>

definition secretOf :: "('a, 'z) Deps \<Rightarrow> World \<Rightarrow> string" where
  "secretOf r w = toHex (map (entropy r) [drawn w ..< drawn w + 32])"

definition hashOf :: "('a, 'z) Deps \<Rightarrow> World \<Rightarrow> string" where
  "hashOf r w = bcryptHash r (secretOf r w) 10 (map (entropy r) [drawn w + 32 ..< drawn w + 48])"

text \<open>
  The client \<open>createClient\<close> stores in world \<open>w\<close> for an organization id and a name,
  and the two saves it makes.
\<close>

definition newRow :: "('a, 'z) Deps \<Rightarrow> string \<Rightarrow> string \<Rightarrow> World \<Rightarrow> DbClient" where
  "newRow r oid n w =
     \<lparr>id' = newId r (nextId w), organizationId = oid, name = n,
      secretBcrypt = hashOf r w, reqsPerSec = 10\<rparr>"

definition newSaves :: "('a, 'z) Deps \<Rightarrow> string \<Rightarrow> string \<Rightarrow> World \<Rightarrow> IoCall list" where
  "newSaves r oid n w =
     [IoSave ''clients'' (SaveClient
        \<lparr>p_organizationId = oid, p_name = n, p_secretBcrypt = hashOf r w, p_reqsPerSec = 10\<rparr>),
      IoSave ''client-roles''
        (SaveClientRole \<lparr>clientId = newId r (nextId w), roleId = EXTERNAL\<rparr>)]"

text \<open>
  The caller of a request is authorized at a level for the organization named in the
  path: the request carries an auth object, the path names an organization, and
  \<open>authorizeCallerForRole\<close> passes for them at that level, asked once the organization
  has been looked up.
\<close>

definition callerAuthorized :: "('a, 'z) Deps \<Rightarrow> 'a Request \<Rightarrow> string \<Rightarrow> World \<Rightarrow> bool" where
  "callerAuthorized r req level w =
     (case assertAuthdReq r req of
        Inl e \<Rightarrow> False
      | Inr a \<Rightarrow>
          (case param req ''orgId'' of
             None \<Rightarrow> False
           | Some oid \<Rightarrow>
               authorizeCallerForRole r oid a level (snd (io_get_organization oid w)) = None))"

text \<open>The calls on \<open>io\<close> that write.\<close>

fun isSave :: "IoCall \<Rightarrow> bool" where
  "isSave (IoSave t p) = True"
| "isSave (IoGet t q) = False"

text \<open>A Content-Type header is present and reads application/json, in whatever case.\<close>

definition contentTypeIsJson :: "string option \<Rightarrow> bool" where
  "contentTypeIsJson ct =
     (case ct of None \<Rightarrow> False | Some v \<Rightarrow> toLowerCase v = ''application/json'')"

text \<open>The body-carrying sessions endpoints other than logout: the four login steps and refresh.\<close>

definition sessionsBodyPaths :: "string list" where
  "sessionsBodyPaths =
     [''/accounts/v1/sessions/login/email'', ''/accounts/v1/sessions/login/password'',
      ''/accounts/v1/sessions/login/code'', ''/accounts/v1/sessions/login/totp'',
      ''/accounts/v1/sessions/refresh'']"

text \<open>The last registration of \<open>register\<close>.\<close>

definition catchAll :: Route where
  "catchAll = route None [''/accounts/v1/*''] [UnknownEndpoint]"

text \<open>Handlers that hand a request on leave its path as it was.\<close>

definition keepsPath :: "(HandlerName \<Rightarrow> 'a Request \<Rightarrow> 'a Outcome) \<Rightarrow> bool" where
  "keepsPath handlers = (\<forall>h q q'. handlers h q = Next q' \<longrightarrow> reqPath q' = reqPath q)"

section \<open>Sample inputs\<close>

text \<open>
  A set of collaborators: the auth object is the caller's name, everyone may read and
  only the owner may manage, the translator keeps the id, the hash is a tagged copy.
\<close>

definition sampleDeps :: "(string, unit) Deps" where
  "sampleDeps =
     \<lparr>assertAuthdReq = (\<lambda>req. case auth req of
                                 None \<Rightarrow> Inl (Unauthorized ''no auth'' None)
                               | Some a \<Rightarrow> Inr a),
      assertAuth = (\<lambda>a. None),
      authorizeCallerForRole = (\<lambda>oid a level w.
         if a = ''owner'' \<or> level = ''read'' then None else Some (Forbidden ''forbidden'' None)),
      dbToApi = (\<lambda>c. \<lparr>apiId = id' c, roles = []\<rparr>),
      InvalidBodyError = (\<lambda>b. BadRequest ''invalid body'' None),
      bcryptHash = (\<lambda>s n salt. ''bcrypt:'' @ s),
      entropy = (\<lambda>n. of_nat n),
      newId = (\<lambda>n. replicate (Suc n) CHR ''n'')\<rparr>"

text \<open>The same with a hash that looks at the first eight characters of the secret only.\<close>

definition collidingDeps :: "(string, unit) Deps" where
  "collidingDeps = sampleDeps\<lparr>bcryptHash := (\<lambda>s n salt. ''bcrypt:'' @ take 8 s)\<rparr>"

text \<open>An entropy source that differs from the sample one in byte 31 alone.\<close>

definition otherEntropy :: "nat \<Rightarrow> 8 word" where
  "otherEntropy i = (if i = 31 then 255 else of_nat i)"

text \<open>The same collaborators, but that nobody is authorized for anything.\<close>

definition refusingDeps :: "(string, unit) Deps" where
  "refusingDeps =
     sampleDeps\<lparr>authorizeCallerForRole := (\<lambda>oid a level w. Some (Forbidden ''forbidden'' None))\<rparr>"

definition sampleWorld :: World where
  "sampleWorld =
     \<lparr>organizations = [\<lparr>orgId = ''org1'', orgName = ''One''\<rparr>, \<lparr>orgId = ''org2'', orgName = ''Two''\<rparr>],
      clients =
        [\<lparr>id' = ''a'', organizationId = ''org1'', name = ''first'', secretBcrypt = ''x'', reqsPerSec = 10\<rparr>,
         \<lparr>id' = ''b'', organizationId = ''org2'', name = ''second'', secretBcrypt = ''y'', reqsPerSec = 10\<rparr>],
      clientRoles =
        [\<lparr>clientId = ''a'', roleId = EXTERNAL\<rparr>, \<lparr>clientId = ''b'', roleId = INTERNAL\<rparr>,
         \<lparr>clientId = ''a'', roleId = TRUSTED\<rparr>],
      calls = [], nextId = 0, drawn = 0\<rparr>"

definition sampleRequest ::
  "string \<Rightarrow> string \<Rightarrow> (string \<times> string) list \<Rightarrow> (string \<times> string) list \<Rightarrow> json option \<Rightarrow>
   string option \<Rightarrow> string Request" where
  "sampleRequest m p hs ps b a =
     \<lparr>reqMethod = m, reqPath = p, headers = hs, params = ps, body = b, auth = a\<rparr>"

text \<open>A request to the clients module, by its route parameters, its body and its caller.\<close>

definition reqOf :: "(string \<times> string) list \<Rightarrow> json option \<Rightarrow> string option \<Rightarrow> string Request" where
  "reqOf ps b a = sampleRequest ''GET'' ''/'' [] ps b a"

definition newClientBody :: json where
  "newClientBody = JObj [(''data'', JObj [(''type'', JStr ''clients''), (''name'', JStr ''app'')])]"

text \<open>A request to the accounts module, by its method, path, headers and body.\<close>

definition accountsRequest :: "string \<Rightarrow> string \<Rightarrow> (string \<times> string) list \<Rightarrow> json option \<Rightarrow> string Request" where
  "accountsRequest m p hs b = sampleRequest m p hs [] b None"

definition sampleJson :: "string Request \<Rightarrow> http_error + json option" where
  "sampleJson req = Inr (body req)"

definition sampleHandlers :: "HandlerName \<Rightarrow> string Request \<Rightarrow> string Outcome" where
  "sampleHandlers h req = Sent"

section \<open>Facts about the clients module\<close>

lemma journal_simps [simp]:
  "organizations (journal c w) = organizations w"
  "clients (journal c w) = clients w"
  "clientRoles (journal c w) = clientRoles w"
  "calls (journal c w) = calls w @ [c]"
  "nextId (journal c w) = nextId w"
  "drawn (journal c w) = drawn w"
  by (simp_all add: journal_def)

lemma io_get_organization_snd [simp]:
  "snd (io_get_organization i w) = journal (IoGet ''organizations'' (ById i)) w"
  by (simp add: io_get_organization_def)

lemma filter_roles_in:
  "i \<in> set ids \<Longrightarrow>
   filter (\<lambda>row. clientId row = i) (filter (\<lambda>row. clientId row \<in> set ids) rs) =
   filter (\<lambda>row. clientId row = i) rs"
  by (induction rs) auto

lemma addRoles_One:
  "addRoles (One c) w =
     (One (c\<lparr>roles := rolesOf w (apiId c)\<rparr>),
      journal (IoGet ''client-roles'' (FilterClientIdIn [apiId c])) w)"
  by (simp add: addRoles_def io_get_client_roles_def rolesOf_def)

lemma addRoles_Many:
  "addRoles (Many cs) w =
     (Many (map (\<lambda>c. c\<lparr>roles := rolesOf w (apiId c)\<rparr>) cs),
      journal (IoGet ''client-roles'' (FilterClientIdIn (map apiId cs))) w)"
proof -
  have "map roleId (filter (\<lambda>row. clientId row = apiId c)
          (filter (\<lambda>row. clientId row \<in> set (map apiId cs)) (clientRoles w))) =
        rolesOf w (apiId c)" if "c \<in> set cs" for c
    using that unfolding rolesOf_def by (subst filter_roles_in) auto
  then show ?thesis
    by (simp add: addRoles_def io_get_client_roles_def)
qed

lemma length_toHex: "length (toHex bs) = 2 * length bs"
  by (induction bs) (simp_all add: toHex_def)

lemma createClient_eq:
  "createClient r newClient a w =
     ((\<lparr>id' = newId r (nextId w), organizationId = fst newClient, name = snd newClient,
        secretBcrypt = hashOf r w, reqsPerSec = 10\<rparr>,
       secretOf r w),
      w\<lparr>clients := clients w @
          [\<lparr>id' = newId r (nextId w), organizationId = fst newClient, name = snd newClient,
            secretBcrypt = hashOf r w, reqsPerSec = 10\<rparr>],
        clientRoles := clientRoles w @ [\<lparr>clientId = newId r (nextId w), roleId = EXTERNAL\<rparr>],
        calls := calls w @
          [IoSave ''clients'' (SaveClient
             \<lparr>p_organizationId = fst newClient, p_name = snd newClient,
              p_secretBcrypt = hashOf r w, p_reqsPerSec = 10\<rparr>),
           IoSave ''client-roles''
             (SaveClientRole \<lparr>clientId = newId r (nextId w), roleId = EXTERNAL\<rparr>)],
        nextId := nextId w + 1,
        drawn := drawn w + 48\<rparr>)"
  by (simp add: createClient_def randomBytes_def io_save_client_def io_save_client_role_def
      journal_def secretOf_def hashOf_def Let_def add.assoc)

lemma get_success_authorized:
  "getClientsForOrgHandler r req w = (Inr resp, w') \<Longrightarrow> callerAuthorized r req ''read'' w"
  by (auto simp: getClientsForOrgHandler_def callerAuthorized_def io_get_organization_def
      split: sum.splits option.splits prod.splits if_splits)

lemma get_unauthorized:
  "\<not> callerAuthorized r req ''read'' w \<Longrightarrow>
   (\<exists>e. fst (getClientsForOrgHandler r req w) = Inl e) \<and>
   (snd (getClientsForOrgHandler r req w) = w \<or>
    (\<exists>oid. snd (getClientsForOrgHandler r req w) = journal (IoGet ''organizations'' (ById oid)) w))"
  by (auto simp: getClientsForOrgHandler_def callerAuthorized_def io_get_organization_def
      split: sum.splits option.splits prod.splits if_splits)

lemma post_success_authorized:
  "postClientHandler r req w = (Inr resp, w') \<Longrightarrow> callerAuthorized r req ''manage'' w"
  by (auto simp: postClientHandler_def callerAuthorized_def io_get_organization_def
      split: sum.splits option.splits prod.splits if_splits)

lemma post_unauthorized:
  "\<not> callerAuthorized r req ''manage'' w \<Longrightarrow>
   (\<exists>e. fst (postClientHandler r req w) = Inl e) \<and>
   (snd (postClientHandler r req w) = w \<or>
    (\<exists>oid. snd (postClientHandler r req w) = journal (IoGet ''organizations'' (ById oid)) w))"
  by (auto simp: postClientHandler_def callerAuthorized_def io_get_organization_def
      split: sum.splits option.splits prod.splits if_splits)

lemma post_success:
  "postClientHandler r req w = (Inr resp, w') \<Longrightarrow>
   \<exists>c. resp = Response 201 (SingleWithSecret c (secretOf r w))"
  by (auto simp: postClientHandler_def createClient_eq secretOf_def io_get_organization_def journal_def
      split: sum.splits option.splits prod.splits if_splits)

lemma get_success_shape:
  "getClientsForOrgHandler r req w = (Inr (Response st b), w') \<Longrightarrow>
   st = 200 \<and> ((\<exists>c. b = Single c) \<or> (\<exists>cs. b = CollectionOf cs))"
  by (auto simp: getClientsForOrgHandler_def
      split: sum.splits option.splits prod.splits if_splits)

lemma secretOf_sample:
  "secretOf sampleDeps sampleWorld =
     ''000102030405060708090a0b0c0d0e0f101112131415161718191a1b1c1d1e1f''"
  by code_simp

lemma secretOf_journal [simp]: "secretOf r (journal c w) = secretOf r w"
  by (simp add: secretOf_def)

lemma hashOf_journal [simp]: "hashOf r (journal c w) = hashOf r w"
  by (simp add: hashOf_def)

lemma post_accepted:
  assumes "assertAuthdReq r req = Inr a" "assertAuth r a = None" "param req ''orgId'' = Some oid"
    "PostClientValidator (body req) = Some n" "fst (io_get_organization oid w) = Inr org"
    "authorizeCallerForRole r oid a ''manage'' (snd (io_get_organization oid w)) = None"
  shows "fst (postClientHandler r req w) =
           Inr (Response 201 (SingleWithSecret
             ((dbToApi r (newRow r oid n w))
                \<lparr>roles := rolesOf (snd (postClientHandler r req w)) (apiId (dbToApi r (newRow r oid n w)))\<rparr>)
             (secretOf r w))) \<and>
         clients (snd (postClientHandler r req w)) = clients w @ [newRow r oid n w] \<and>
         filter isSave (calls (snd (postClientHandler r req w))) =
           filter isSave (calls w) @ newSaves r oid n w"
proof -
  have go: "io_get_organization oid w = (Inr org, journal (IoGet ''organizations'' (ById oid)) w)"
    using assms(5) by (simp add: io_get_organization_def)
  have az: "authorizeCallerForRole r oid a ''manage'' (journal (IoGet ''organizations'' (ById oid)) w) = None"
    using assms(6) by simp
  show ?thesis
    by (simp add: postClientHandler_def assms(1-4) go az createClient_eq addRoles_One asSingle_def
        newRow_def newSaves_def rolesOf_def)
qed

lemma post_success_persists:
  assumes "postClientHandler r req w = (Inr resp, w')"
  shows "\<exists>a oid n org. assertAuthdReq r req = Inr a \<and> assertAuth r a = None \<and>
           param req ''orgId'' = Some oid \<and> PostClientValidator (body req) = Some n \<and>
           fst (io_get_organization oid w) = Inr org \<and>
           authorizeCallerForRole r oid a ''manage'' (snd (io_get_organization oid w)) = None"
  using assms
  by (auto simp: postClientHandler_def io_get_organization_def
      split: sum.splits option.splits prod.splits if_splits)

lemma entropy_update_simps [simp]:
  "newId (r\<lparr>entropy := e\<rparr>) = newId r"
  "bcryptHash (r\<lparr>entropy := e\<rparr>) = bcryptHash r"
  "dbToApi (r\<lparr>entropy := e\<rparr>) = dbToApi r"
  by simp_all

lemma get_ignores_entropy:
  "getClientsForOrgHandler (r\<lparr>entropy := e\<rparr>) req w = getClientsForOrgHandler r req w"
  by (simp add: getClientsForOrgHandler_def
      cong: sum.case_cong option.case_cong prod.case_cong if_cong)

lemma post_world_by_hash:
  assumes "hashOf (r\<lparr>entropy := e\<rparr>) w = hashOf r w"
  shows "snd (postClientHandler (r\<lparr>entropy := e\<rparr>) req w) = snd (postClientHandler r req w)"
  using assms
  by (auto simp: postClientHandler_def createClient_eq addRoles_One io_get_organization_def
      split: sum.splits option.splits prod.splits if_splits)

lemma later_draws_agree:
  assumes "\<forall>i. i < d \<or> d + 32 \<le> i \<longrightarrow> e i = entropy r i" "d + 32 \<le> drawn w2"
  shows "secretOf (r\<lparr>entropy := e\<rparr>) w2 = secretOf r w2 \<and> hashOf (r\<lparr>entropy := e\<rparr>) w2 = hashOf r w2"
proof -
  have a: "map e [drawn w2 ..< drawn w2 + 32] = map (entropy r) [drawn w2 ..< drawn w2 + 32]"
    using assms by (intro map_cong) auto
  have b: "map e [drawn w2 + 32 ..< drawn w2 + 48] = map (entropy r) [drawn w2 + 32 ..< drawn w2 + 48]"
    using assms by (intro map_cong) auto
  show ?thesis
    unfolding secretOf_def hashOf_def by (simp add: a b)
qed

lemma post_later_ignores_secret:
  assumes "\<forall>i. i < d \<or> d + 32 \<le> i \<longrightarrow> e i = entropy r i" "d + 32 \<le> drawn w2"
  shows "postClientHandler (r\<lparr>entropy := e\<rparr>) req w2 = postClientHandler r req w2"
proof -
  have "createClient (r\<lparr>entropy := e\<rparr>) nc a (journal c w2) = createClient r nc a (journal c w2)" for nc a c
    using later_draws_agree[OF assms] by (simp add: createClient_eq)
  then show ?thesis
    by (simp add: postClientHandler_def io_get_organization_def
        cong: sum.case_cong option.case_cong prod.case_cong if_cong)
qed

lemma get_earlier_errors:
  "(assertAuthdReq r req = Inl e \<longrightarrow> getClientsForOrgHandler r req w = (Inl e, w)) \<and>
   (assertAuthdReq r req = Inr a \<and> assertAuth r a = Some e \<longrightarrow>
      getClientsForOrgHandler r req w = (Inl e, w)) \<and>
   (assertAuthdReq r req = Inr a \<and> assertAuth r a = None \<and> param req ''orgId'' = Some oid \<and>
    fst (io_get_organization oid w) = Inl e \<longrightarrow>
      getClientsForOrgHandler r req w = (Inl e, snd (io_get_organization oid w))) \<and>
   (assertAuthdReq r req = Inr a \<and> assertAuth r a = None \<and> param req ''orgId'' = Some oid \<and>
    fst (io_get_organization oid w) = Inr org \<and>
    authorizeCallerForRole r oid a ''read'' (snd (io_get_organization oid w)) = Some e \<longrightarrow>
      getClientsForOrgHandler r req w = (Inl e, snd (io_get_organization oid w)))"
  by (auto simp: getClientsForOrgHandler_def io_get_organization_def
      split: sum.splits option.splits prod.splits if_splits)

lemma assertion_errors:
  "(assertAuthdReq r req = Inl e \<longrightarrow>
      getClientsForOrgHandler r req w = (Inl e, w) \<and> postClientHandler r req w = (Inl e, w)) \<and>
   (assertAuthdReq r req = Inr a \<and> assertAuth r a = Some e \<longrightarrow>
      getClientsForOrgHandler r req w = (Inl e, w) \<and> postClientHandler r req w = (Inl e, w))"
  by (auto simp: getClientsForOrgHandler_def postClientHandler_def
      split: sum.splits option.splits prod.splits if_splits)

lemma otherSecret_sample:
  "secretOf (collidingDeps\<lparr>entropy := otherEntropy\<rparr>) sampleWorld =
     ''000102030405060708090a0b0c0d0e0f101112131415161718191a1b1c1d1eff''"
  "secretOf collidingDeps sampleWorld =
     ''000102030405060708090a0b0c0d0e0f101112131415161718191a1b1c1d1e1f''"
  by code_simp+

lemmas sample_defs = sampleDeps_def sampleWorld_def sampleRequest_def reqOf_def newClientBody_def
  param_def PostClientValidator_def io_get_organization_def io_get_client_def
  io_get_clients_of_org_def journal_def asSingle_def asArray_def rolesOf_def


section \<open>Facts about the accounts module and the mock cache\<close>

lemma toLowerChar_simps [simp]:
  "toLowerChar (CHR ''/'') = CHR ''/''"
  "toLowerChar (CHR ''-'') = CHR ''-''"
  "toLowerChar (CHR ''%'') = CHR ''%''"
  "toLowerChar (CHR ''1'') = CHR ''1''" "toLowerChar (CHR ''7'') = CHR ''7''"
  "toLowerChar (CHR ''a'') = CHR ''a''" "toLowerChar (CHR ''b'') = CHR ''b''"
  "toLowerChar (CHR ''c'') = CHR ''c''" "toLowerChar (CHR ''d'') = CHR ''d''"
  "toLowerChar (CHR ''e'') = CHR ''e''" "toLowerChar (CHR ''f'') = CHR ''f''"
  "toLowerChar (CHR ''g'') = CHR ''g''" "toLowerChar (CHR ''h'') = CHR ''h''"
  "toLowerChar (CHR ''i'') = CHR ''i''" "toLowerChar (CHR ''j'') = CHR ''j''"
  "toLowerChar (CHR ''k'') = CHR ''k''" "toLowerChar (CHR ''l'') = CHR ''l''"
  "toLowerChar (CHR ''m'') = CHR ''m''" "toLowerChar (CHR ''n'') = CHR ''n''"
  "toLowerChar (CHR ''o'') = CHR ''o''" "toLowerChar (CHR ''p'') = CHR ''p''"
  "toLowerChar (CHR ''q'') = CHR ''q''" "toLowerChar (CHR ''r'') = CHR ''r''"
  "toLowerChar (CHR ''s'') = CHR ''s''" "toLowerChar (CHR ''t'') = CHR ''t''"
  "toLowerChar (CHR ''u'') = CHR ''u''" "toLowerChar (CHR ''v'') = CHR ''v''"
  "toLowerChar (CHR ''w'') = CHR ''w''" "toLowerChar (CHR ''x'') = CHR ''x''"
  "toLowerChar (CHR ''y'') = CHR ''y''" "toLowerChar (CHR ''z'') = CHR ''z''"
  "toLowerChar (CHR ''A'') = CHR ''a''" "toLowerChar (CHR ''E'') = CHR ''e''"
  "toLowerChar (CHR ''G'') = CHR ''g''" "toLowerChar (CHR ''J'') = CHR ''j''"
  "toLowerChar (CHR ''N'') = CHR ''n''" "toLowerChar (CHR ''O'') = CHR ''o''"
  "toLowerChar (CHR ''P'') = CHR ''p''" "toLowerChar (CHR ''S'') = CHR ''s''"
  "toLowerChar (CHR ''T'') = CHR ''t''"
  by code_simp+

lemma isWordChar_simps [simp]:
  "isWordChar (CHR ''i'')" "isWordChar (CHR ''d'')" "\<not> isWordChar (CHR ''/'')"
  by code_simp+

lemma decodes_samples [simp]:
  "decodes ''7''" "\<not> decodes ''%zz''" "decodes ''nowhere''"
  by code_simp+

lemmas route_eval = register_def route_def routeMatches_def routeStops_def layerMatch_def
  verbMatches_def toLowerCase_def pathMatches_def upt_rec

lemma badContentType_iff: "badContentType ct = (\<not> contentTypeIsJson ct)"
  by (auto simp: badContentType_def contentTypeIsJson_def toLowerCase_def split: option.splits)

lemma parse_unsupported:
  "\<not> contentTypeIsJson (reqGet req ''content-type'') \<Longrightarrow>
   getParseBodyFunc json allow req = Fail (unsupportedMediaType (reqGet req ''content-type''))"
  by (simp add: getParseBodyFunc_def badContentType_iff)

lemma routeStops_iff:
  "routeStops rt req = (routeMatches rt req \<or> (\<exists>v. layerMatch rt (reqPath req) = DecodeFailed v))"
  by (auto simp: routeStops_def routeMatches_def split: Match.splits)

lemma dispatch_first_match:
  "find (\<lambda>rt. routeStops rt req) rts = Some rt \<Longrightarrow> routeMatches rt req \<Longrightarrow>
   runStack json handlers (stack rt) req = (out, tr) \<Longrightarrow> (\<forall>q. out \<noteq> Next q) \<Longrightarrow>
   dispatch json handlers rts req = (out, tr)"
  by (induction rts)
    (auto simp: routeStops_def routeMatches_def split: if_splits Outcome.splits Match.splits)

lemma dispatch_trace_prefix:
  "find (\<lambda>rt. routeStops rt req) rts = Some rt \<Longrightarrow> routeMatches rt req \<Longrightarrow>
   \<exists>rest. snd (dispatch json handlers rts req) = snd (runStack json handlers (stack rt) req) @ rest"
  by (induction rts)
    (auto simp: routeStops_def routeMatches_def split: if_splits Outcome.splits prod.splits Match.splits)

lemma dispatch_skip:
  "\<forall>rt \<in> set rts. \<not> routeStops rt req \<Longrightarrow>
   dispatch json handlers (rts @ rest) req = dispatch json handlers rest req"
  by (induction rts) (auto simp: routeStops_def split: Match.splits)

lemma parser_is_first:
  "rt \<in> set register \<Longrightarrow> ParseBody \<in> set (stack rt) \<or> ParseBodyAllowBlank \<in> set (stack rt) \<Longrightarrow>
   \<exists>rest. stack rt = ParseBody # rest \<or> stack rt = ParseBodyAllowBlank # rest"
  by (auto simp: register_def route_def)

lemma stack_unsupported:
  assumes "rt \<in> set register"
    "ParseBody \<in> set (stack rt) \<or> ParseBodyAllowBlank \<in> set (stack rt)"
    "\<not> contentTypeIsJson (reqGet req ''content-type'')"
  shows "runStack json handlers (stack rt) req =
           (Fail (unsupportedMediaType (reqGet req ''content-type'')), [hd (stack rt)]) \<and>
         (hd (stack rt) = ParseBody \<or> hd (stack rt) = ParseBodyAllowBlank)"
proof -
  from parser_is_first[OF assms(1,2)] obtain rest where
    "stack rt = ParseBody # rest \<or> stack rt = ParseBodyAllowBlank # rest" by blast
  then show ?thesis
    using parse_unsupported[OF assms(3)]
    by (auto simp: parseBody_def parseBodyAllowBlank_def)
qed

lemma sessions_routes:
  assumes "reqMethod req = ''POST''"
  shows
  "reqPath req = ''/accounts/v1/sessions/logout'' \<Longrightarrow>
   find (\<lambda>rt. routeStops rt req) register =
   Some (route (Some ''post'') [''/accounts/v1/sessions/logout'']
      [ParseBodyAllowBlank, Handler HandlePostSessionsLogout])"
  "reqPath req = ''/accounts/v1/sessions/refresh'' \<Longrightarrow>
   find (\<lambda>rt. routeStops rt req) register =
   Some (route (Some ''post'') [''/accounts/v1/sessions/refresh'']
      [ParseBody, Handler HandlePostSessionsRefresh])"
  "reqPath req = ''/accounts/v1/sessions/login/email'' \<Longrightarrow>
   find (\<lambda>rt. routeStops rt req) register =
   Some (route (Some ''post'') [''/accounts/v1/sessions/login/email'']
      [ParseBody, Handler HandlePostSessionsLoginEmail])"
  "reqPath req = ''/accounts/v1/sessions/login/password'' \<Longrightarrow>
   find (\<lambda>rt. routeStops rt req) register =
   Some (route (Some ''post'') [''/accounts/v1/sessions/login/password'']
      [ParseBody, Handler HandlePostSessionsLoginPassword])"
  "reqPath req = ''/accounts/v1/sessions/login/code'' \<Longrightarrow>
   find (\<lambda>rt. routeStops rt req) register =
   Some (route (Some ''post'') [''/accounts/v1/sessions/login/code'']
      [ParseBody, Handler HandlePostSessionsLoginCode])"
  "reqPath req = ''/accounts/v1/sessions/login/totp'' \<Longrightarrow>
   find (\<lambda>rt. routeStops rt req) register =
   Some (route (Some ''post'') [''/accounts/v1/sessions/login/totp'']
      [ParseBody, Handler HandlePostSessionsLoginTotp])"
  using assms by (simp_all add: route_eval)

lemma literal_route_matches:
  assumes "reqMethod req = ''POST''"
  shows "p \<in> set (''/accounts/v1/sessions/logout'' # sessionsBodyPaths) \<Longrightarrow> reqPath req = p \<Longrightarrow>
         routeMatches (route (Some ''post'') [p] st) req"
  using assms by (auto simp: sessionsBodyPaths_def route_eval)

lemma sessions_first_match:
  "reqMethod req = ''POST'' \<Longrightarrow> reqPath req \<in> set sessionsBodyPaths \<Longrightarrow>
   \<exists>h. find (\<lambda>rt. routeStops rt req) register =
     Some (route (Some ''post'') [reqPath req] [ParseBody, Handler h])"
  unfolding sessionsBodyPaths_def using sessions_routes[of req] by auto

lemmas accounts_sample_defs = accountsRequest_def sampleRequest_def sampleJson_def
  sampleHandlers_def reqGet_def contentTypeIsJson_def toLowerCase_def

lemma tokens_catchall:
  "pathTokens ''/accounts/v1/*'' = map Lit ''/accounts/v1/'' @ [Star]"
  by simp

lemma match_Lit_prefix: "matchCaptures (map Lit p @ ts) (p @ s) = matchCaptures ts s"
  by (induction p) auto

lemma match_Star_end: "matchCaptures [Star] s = Some [s]"
  by simp

lemma catchall_layer:
  "layerMatch catchAll (''/accounts/v1/'' @ rest) = (if decodes rest then Matched else DecodeFailed rest)"
proof -
  have "matchCaptures (pathTokens ''/accounts/v1/*'') (''/accounts/v1/'' @ rest) = Some [rest]"
    unfolding tokens_catchall
    using match_Lit_prefix[of "''/accounts/v1/''" "[Star]" rest] match_Star_end[of rest] by simp
  then show ?thesis
    by (simp add: layerMatch_def catchAll_def route_def)
qed

lemma register_split: "register = butlast register @ [catchAll]"
  by (simp add: register_def catchAll_def)

lemma catchAll_handles_any_verb: "verbMatches (verb catchAll) m"
  by (simp add: catchAll_def route_def verbMatches_def)

lemma parseBody_keeps_path:
  "getParseBodyFunc json allow req = Next q \<Longrightarrow> reqPath q = reqPath req"
  by (auto simp: getParseBodyFunc_def Let_def split: if_splits sum.splits)

lemma runItem_keeps_path:
  "keepsPath handlers \<Longrightarrow> runItem json handlers m req = Next q \<Longrightarrow> reqPath q = reqPath req"
  by (cases m) (auto simp: keepsPath_def parseBody_def parseBodyAllowBlank_def dest: parseBody_keeps_path)

lemma runStack_keeps_path:
  "keepsPath handlers \<Longrightarrow> runStack json handlers ms req = (Next q, tr) \<Longrightarrow> reqPath q = reqPath req"
proof (induction ms arbitrary: req tr)
  case Nil
  then show ?case by simp
next
  case (Cons m ms)
  then show ?case
    by (auto split: Outcome.splits prod.splits dest: runItem_keeps_path)
qed

lemma dispatch_catchAll:
  "dispatch json handlers [catchAll] req =
     (case layerMatch catchAll (reqPath req) of
        NoMatch \<Rightarrow> (Next req, [])
      | Matched \<Rightarrow> (Fail (unknownEndpoint req), [UnknownEndpoint])
      | DecodeFailed v \<Rightarrow> (Fail (failedToDecode v), []))"
  using catchAll_handles_any_verb[of "reqMethod req"]
  by (simp add: catchAll_def route_def split: Match.splits)

lemma dispatch_never_falls_through:
  assumes "keepsPath handlers"
  shows "layerMatch catchAll (reqPath req) \<noteq> NoMatch \<Longrightarrow>
         fst (dispatch json handlers (rts @ [catchAll]) req) \<noteq> Next q"
proof (induction rts arbitrary: req)
  case Nil
  then show ?case
    unfolding append_Nil dispatch_catchAll by (simp split: Match.splits)
next
  case (Cons rt rts)
  show ?case
  proof (cases "routeMatches rt req")
    case False
    then show ?thesis using Cons
      by (auto simp: routeMatches_def split: Match.splits)
  next
    case True
    obtain out tr where rs: "runStack json handlers (stack rt) req = (out, tr)"
      by (cases "runStack json handlers (stack rt) req")
    show ?thesis
    proof (cases out)
      case (Next q')
      then have "reqPath q' = reqPath req"
        using runStack_keeps_path[OF assms] rs by blast
      then have "fst (dispatch json handlers (rts @ [catchAll]) q') \<noteq> Next q"
        using Cons by simp
      then show ?thesis using True rs Next
        by (auto simp: routeMatches_def split: prod.splits)
    next
      case (Fail e)
      then show ?thesis using True rs by (simp add: routeMatches_def)
    next
      case Sent
      then show ?thesis using True rs by (simp add: routeMatches_def)
    qed
  qed
qed

lemma runCache_counts:
  "snd (runCache (\<lambda>k. startJob) ops n) = n + length (filter isGet ops)"
proof (induction ops arbitrary: n)
  case Nil
  then show ?case by simp
next
  case (Cons op ops)
  then show ?case
    by (cases op) (simp_all add: mockCache_get_def mockCache_clear_def startJob_def case_prod_beta)
qed

section \<open>Properties of the clients module\<close>

text \<open>
  C5. \<open>addRoles\<close>, given one client or a list of clients, gives each client as its roles
  exactly the role ids of the client-roles records that carry its id, in stored order
  (none when there are none), leaves every other field of the client as it was, and
  keeps the order of the list.
\<close>

theorem addRoles_assigns_roles:
  "fst (addRoles (One c) w) = One (c\<lparr>roles := rolesOf w (apiId c)\<rparr>) \<and>
   fst (addRoles (Many cs) w) = Many (map (\<lambda>c. c\<lparr>roles := rolesOf w (apiId c)\<rparr>) cs)"
  by (simp add: addRoles_One addRoles_Many)

theorem addRoles_assigns_roles_witness:
  "fst (addRoles (Many [\<lparr>apiId = ''b'', roles = []\<rparr>, \<lparr>apiId = ''zz'', roles = [INTERNAL]\<rparr>,
                        \<lparr>apiId = ''a'', roles = []\<rparr>]) sampleWorld) =
     Many [\<lparr>apiId = ''b'', roles = [INTERNAL]\<rparr>, \<lparr>apiId = ''zz'', roles = []\<rparr>,
           \<lparr>apiId = ''a'', roles = [EXTERNAL, TRUSTED]\<rparr>] \<and>
   fst (addRoles (One \<lparr>apiId = ''a'', roles = []\<rparr>) sampleWorld) =
     One \<lparr>apiId = ''a'', roles = [EXTERNAL, TRUSTED]\<rparr>"
  using addRoles_assigns_roles[of "\<lparr>apiId = ''a'', roles = []\<rparr>" sampleWorld
      "[\<lparr>apiId = ''b'', roles = []\<rparr>, \<lparr>apiId = ''zz'', roles = [INTERNAL]\<rparr>,
        \<lparr>apiId = ''a'', roles = []\<rparr>]"]
  by (simp add: rolesOf_def sampleWorld_def)

text \<open>
  C10. Whatever organization id and name the caller supplies, \<open>createClient\<close> stores the
  client with a budget of 10 requests per second and saves exactly one role for it,
  \<open>EXTERNAL\<close>: the two saves are its only writes, and where the new id was not in use
  before, the roles held for the client are \<open>EXTERNAL\<close> alone.
\<close>

theorem createClient_budget_and_role:
  "(case createClient r newClient a w of
      ((client, secret), w') \<Rightarrow>
        reqsPerSec client = 10 \<and>
        organizationId client = fst newClient \<and> name client = snd newClient \<and>
        clients w' = clients w @ [client] \<and>
        clientRoles w' = clientRoles w @ [\<lparr>clientId = id' client, roleId = EXTERNAL\<rparr>] \<and>
        filter isSave (drop (length (calls w)) (calls w')) =
          [IoSave ''clients'' (SaveClient
             \<lparr>p_organizationId = fst newClient, p_name = snd newClient,
              p_secretBcrypt = secretBcrypt client, p_reqsPerSec = 10\<rparr>),
           IoSave ''client-roles'' (SaveClientRole \<lparr>clientId = id' client, roleId = EXTERNAL\<rparr>)] \<and>
        (id' client \<notin> clientId ` set (clientRoles w) \<longrightarrow> rolesOf w' (id' client) = [EXTERNAL]))"
  by (auto simp: createClient_eq rolesOf_def filter_empty_conv image_iff)

theorem createClient_budget_and_role_witness:
  "reqsPerSec (fst (fst (createClient sampleDeps (''org2'', ''app'') ''owner'' sampleWorld))) = 10 \<and>
   id' (fst (fst (createClient sampleDeps (''org2'', ''app'') ''owner'' sampleWorld))) = ''n'' \<and>
   rolesOf (snd (createClient sampleDeps (''org2'', ''app'') ''owner'' sampleWorld)) ''n'' = [EXTERNAL] \<and>
   clientRoles (snd (createClient sampleDeps (''org2'', ''app'') ''owner'' sampleWorld)) =
     clientRoles sampleWorld @ [\<lparr>clientId = ''n'', roleId = EXTERNAL\<rparr>]"
  using createClient_budget_and_role[where r = sampleDeps and newClient = "(''org2'', ''app'')"
      and a = "''owner''" and w = sampleWorld]
  by (simp add: createClient_eq sampleDeps_def sampleWorld_def split: prod.splits)


text \<open>
  C1. The secret of \<open>createClient\<close> is the hexadecimal form of 32 random bytes, 64
  characters, and the world it leaves is the old one with the new client, its role, the
  two saves in the journal and the counters moved on: the payload and the stored client
  hold the secret as the bcrypt hash of it in \<open>secretBcrypt\<close> and as nothing else.

  A request that passes every check of \<open>postClientHandler\<close> gets the 201 response with
  that raw secret, and the world then holds the new client with the hash of that very
  secret, the two saves being the only writes; every response of the handler is of this
  kind. A response of \<open>getClientsForOrgHandler\<close> is a 200 with a client or a list of
  clients as the translator and \<open>addRoles\<close> make them from what is stored.

  No later operation gets at the secret: had the 32 bytes been others with the same hash,
  the creating request would have left the same world, and every run of either handler
  in a world whose random bytes are drawn past the secret is the same, response and
  world, whatever the 32 bytes were.
\<close>

theorem createClient_secret_only_hashed:
  "(case createClient r newClient a w of
      ((client, secret), w') \<Rightarrow>
        secret = toHex (fst (randomBytes r 32 w)) \<and> length secret = 64 \<and>
        secret = secretOf r w \<and>
        secretBcrypt client = hashOf r w \<and>
        hashOf r w = bcryptHash r secret 10 (map (entropy r) [drawn w + 32 ..< drawn w + 48]) \<and>
        w' = w\<lparr>clients := clients w @ [client],
               clientRoles := clientRoles w @ [\<lparr>clientId = id' client, roleId = EXTERNAL\<rparr>],
               calls := calls w @
                 [IoSave ''clients'' (SaveClient
                    \<lparr>p_organizationId = fst newClient, p_name = snd newClient,
                     p_secretBcrypt = hashOf r w, p_reqsPerSec = 10\<rparr>),
                  IoSave ''client-roles''
                    (SaveClientRole \<lparr>clientId = id' client, roleId = EXTERNAL\<rparr>)],
               nextId := nextId w + 1,
               drawn := drawn w + 48\<rparr>) \<and>
   (assertAuthdReq r req = Inr a \<and> assertAuth r a = None \<and> param req ''orgId'' = Some oid \<and>
    PostClientValidator (body req) = Some n \<and> fst (io_get_organization oid w) = Inr org \<and>
    authorizeCallerForRole r oid a ''manage'' (snd (io_get_organization oid w)) = None \<longrightarrow>
      fst (postClientHandler r req w) =
        Inr (Response 201 (SingleWithSecret
          ((dbToApi r (newRow r oid n w))
             \<lparr>roles := rolesOf (snd (postClientHandler r req w)) (apiId (dbToApi r (newRow r oid n w)))\<rparr>)
          (secretOf r w))) \<and>
      clients (snd (postClientHandler r req w)) = clients w @ [newRow r oid n w] \<and>
      secretBcrypt (newRow r oid n w) = hashOf r w \<and>
      filter isSave (calls (snd (postClientHandler r req w))) =
        filter isSave (calls w) @ newSaves r oid n w) \<and>
   (\<forall>resp w'. postClientHandler r req w = (Inr resp, w') \<longrightarrow>
      (\<exists>c oid' n'. resp = Response 201 (SingleWithSecret c (secretOf r w)) \<and>
         clients w' = clients w @ [newRow r oid' n' w] \<and>
         filter isSave (calls w') = filter isSave (calls w) @ newSaves r oid' n' w)) \<and>
   (\<forall>st b w'. getClientsForOrgHandler r req w = (Inr (Response st b), w') \<longrightarrow>
      st = 200 \<and> ((\<exists>c. b = Single c) \<or> (\<exists>cs. b = CollectionOf cs))) \<and>
   ((\<forall>i. i < drawn w \<or> drawn w + 32 \<le> i \<longrightarrow> e i = entropy r i) \<longrightarrow>
      (hashOf (r\<lparr>entropy := e\<rparr>) w = hashOf r w \<longrightarrow>
         snd (postClientHandler (r\<lparr>entropy := e\<rparr>) req w) = snd (postClientHandler r req w)) \<and>
      (\<forall>req2 w2. drawn w + 32 \<le> drawn w2 \<longrightarrow>
         getClientsForOrgHandler (r\<lparr>entropy := e\<rparr>) req2 w2 = getClientsForOrgHandler r req2 w2 \<and>
         postClientHandler (r\<lparr>entropy := e\<rparr>) req2 w2 = postClientHandler r req2 w2))"
proof -
  have s1: "secretOf r w = toHex (fst (randomBytes r 32 w))"
    by (simp add: secretOf_def randomBytes_def)
  have s2: "length (secretOf r w) = 64"
    by (simp add: secretOf_def length_toHex)
  have c1: "(case createClient r newClient a w of
      ((client, secret), w') \<Rightarrow>
        secret = toHex (fst (randomBytes r 32 w)) \<and> length secret = 64 \<and>
        secret = secretOf r w \<and>
        secretBcrypt client = hashOf r w \<and>
        hashOf r w = bcryptHash r secret 10 (map (entropy r) [drawn w + 32 ..< drawn w + 48]) \<and>
        w' = w\<lparr>clients := clients w @ [client],
               clientRoles := clientRoles w @ [\<lparr>clientId = id' client, roleId = EXTERNAL\<rparr>],
               calls := calls w @
                 [IoSave ''clients'' (SaveClient
                    \<lparr>p_organizationId = fst newClient, p_name = snd newClient,
                     p_secretBcrypt = hashOf r w, p_reqsPerSec = 10\<rparr>),
                  IoSave ''client-roles''
                    (SaveClientRole \<lparr>clientId = id' client, roleId = EXTERNAL\<rparr>)],
               nextId := nextId w + 1,
               drawn := drawn w + 48\<rparr>)"
    using s1 s2 by (simp add: createClient_eq hashOf_def)
  have c2: "fst (postClientHandler r req w) =
        Inr (Response 201 (SingleWithSecret
          ((dbToApi r (newRow r oid n w))
             \<lparr>roles := rolesOf (snd (postClientHandler r req w)) (apiId (dbToApi r (newRow r oid n w)))\<rparr>)
          (secretOf r w))) \<and>
      clients (snd (postClientHandler r req w)) = clients w @ [newRow r oid n w] \<and>
      secretBcrypt (newRow r oid n w) = hashOf r w \<and>
      filter isSave (calls (snd (postClientHandler r req w))) =
        filter isSave (calls w) @ newSaves r oid n w"
    if "assertAuthdReq r req = Inr a" "assertAuth r a = None" "param req ''orgId'' = Some oid"
      "PostClientValidator (body req) = Some n" "fst (io_get_organization oid w) = Inr org"
      "authorizeCallerForRole r oid a ''manage'' (snd (io_get_organization oid w)) = None"
    using post_accepted[OF that] by (simp add: newRow_def)
  have c3: "\<exists>c oid' n'. resp = Response 201 (SingleWithSecret c (secretOf r w)) \<and>
         clients w' = clients w @ [newRow r oid' n' w] \<and>
         filter isSave (calls w') = filter isSave (calls w) @ newSaves r oid' n' w"
    if ok: "postClientHandler r req w = (Inr resp, w')" for resp w'
  proof -
    from post_success_persists[OF ok] obtain a' oid' n' org' where
      pre: "assertAuthdReq r req = Inr a'" "assertAuth r a' = None" "param req ''orgId'' = Some oid'"
        "PostClientValidator (body req) = Some n'" "fst (io_get_organization oid' w) = Inr org'"
        "authorizeCallerForRole r oid' a' ''manage'' (snd (io_get_organization oid' w)) = None"
      by blast
    from post_accepted[OF pre] ok show ?thesis by auto
  qed
  have c4: "st = 200 \<and> ((\<exists>c. b = Single c) \<or> (\<exists>cs. b = CollectionOf cs))"
    if "getClientsForOrgHandler r req w = (Inr (Response st b), w')" for st b w'
    using get_success_shape[OF that] .
  have c5: "snd (postClientHandler (r\<lparr>entropy := e\<rparr>) req w) = snd (postClientHandler r req w)"
    if "hashOf (r\<lparr>entropy := e\<rparr>) w = hashOf r w"
    using post_world_by_hash[OF that] .
  have c6: "getClientsForOrgHandler (r\<lparr>entropy := e\<rparr>) req2 w2 = getClientsForOrgHandler r req2 w2 \<and>
         postClientHandler (r\<lparr>entropy := e\<rparr>) req2 w2 = postClientHandler r req2 w2"
    if "\<forall>i. i < drawn w \<or> drawn w + 32 \<le> i \<longrightarrow> e i = entropy r i" "drawn w + 32 \<le> drawn w2"
    for req2 w2
    using post_later_ignores_secret[OF that] get_ignores_entropy by blast
  have o2: "assertAuthdReq r req = Inr a \<and> assertAuth r a = None \<and> param req ''orgId'' = Some oid \<and>
    PostClientValidator (body req) = Some n \<and> fst (io_get_organization oid w) = Inr org \<and>
    authorizeCallerForRole r oid a ''manage'' (snd (io_get_organization oid w)) = None \<longrightarrow>
      fst (postClientHandler r req w) =
        Inr (Response 201 (SingleWithSecret
          ((dbToApi r (newRow r oid n w))
             \<lparr>roles := rolesOf (snd (postClientHandler r req w)) (apiId (dbToApi r (newRow r oid n w)))\<rparr>)
          (secretOf r w))) \<and>
      clients (snd (postClientHandler r req w)) = clients w @ [newRow r oid n w] \<and>
      secretBcrypt (newRow r oid n w) = hashOf r w \<and>
      filter isSave (calls (snd (postClientHandler r req w))) =
        filter isSave (calls w) @ newSaves r oid n w"
    using c2 by (intro impI) (elim conjE)
  have o3: "\<forall>resp w'. postClientHandler r req w = (Inr resp, w') \<longrightarrow>
      (\<exists>c oid' n'. resp = Response 201 (SingleWithSecret c (secretOf r w)) \<and>
         clients w' = clients w @ [newRow r oid' n' w] \<and>
         filter isSave (calls w') = filter isSave (calls w) @ newSaves r oid' n' w)"
    using c3 by (intro allI impI)
  have o4: "\<forall>st b w'. getClientsForOrgHandler r req w = (Inr (Response st b), w') \<longrightarrow>
      st = 200 \<and> ((\<exists>c. b = Single c) \<or> (\<exists>cs. b = CollectionOf cs))"
    using c4 by (intro allI impI)
  have o5: "(\<forall>i. i < drawn w \<or> drawn w + 32 \<le> i \<longrightarrow> e i = entropy r i) \<longrightarrow>
      (hashOf (r\<lparr>entropy := e\<rparr>) w = hashOf r w \<longrightarrow>
         snd (postClientHandler (r\<lparr>entropy := e\<rparr>) req w) = snd (postClientHandler r req w)) \<and>
      (\<forall>req2 w2. drawn w + 32 \<le> drawn w2 \<longrightarrow>
         getClientsForOrgHandler (r\<lparr>entropy := e\<rparr>) req2 w2 = getClientsForOrgHandler r req2 w2 \<and>
         postClientHandler (r\<lparr>entropy := e\<rparr>) req2 w2 = postClientHandler r req2 w2)"
  proof (intro impI conjI allI)
    assume "hashOf (r\<lparr>entropy := e\<rparr>) w = hashOf r w"
    then show "snd (postClientHandler (r\<lparr>entropy := e\<rparr>) req w) = snd (postClientHandler r req w)"
      by (rule c5)
  next
    fix req2 and w2 :: World
    assume ag: "\<forall>i. i < drawn w \<or> drawn w + 32 \<le> i \<longrightarrow> e i = entropy r i"
      and lt: "drawn w + 32 \<le> drawn w2"
    from c6[OF ag lt]
    show "getClientsForOrgHandler (r\<lparr>entropy := e\<rparr>) req2 w2 = getClientsForOrgHandler r req2 w2"
      and "postClientHandler (r\<lparr>entropy := e\<rparr>) req2 w2 = postClientHandler r req2 w2"
      by simp_all
  qed
  show ?thesis
    using c1 o2 o3 o4 o5 by (intro conjI)
qed

theorem createClient_secret_only_hashed_witness:
  "fst (postClientHandler sampleDeps (reqOf [(''orgId'', ''org2'')] (Some newClientBody) (Some ''owner''))
      sampleWorld) =
     Inr (Response 201 (SingleWithSecret \<lparr>apiId = ''n'', roles = [EXTERNAL]\<rparr>
       ''000102030405060708090a0b0c0d0e0f101112131415161718191a1b1c1d1e1f'')) \<and>
   clients (snd (postClientHandler sampleDeps
       (reqOf [(''orgId'', ''org2'')] (Some newClientBody) (Some ''owner'')) sampleWorld)) =
     clients sampleWorld @
       [\<lparr>id' = ''n'', organizationId = ''org2'', name = ''app'',
         secretBcrypt = ''bcrypt:000102030405060708090a0b0c0d0e0f101112131415161718191a1b1c1d1e1f'',
         reqsPerSec = 10\<rparr>] \<and>
   secretOf (collidingDeps\<lparr>entropy := otherEntropy\<rparr>) sampleWorld =
     ''000102030405060708090a0b0c0d0e0f101112131415161718191a1b1c1d1eff'' \<and>
   secretOf collidingDeps sampleWorld =
     ''000102030405060708090a0b0c0d0e0f101112131415161718191a1b1c1d1e1f'' \<and>
   snd (postClientHandler (collidingDeps\<lparr>entropy := otherEntropy\<rparr>)
       (reqOf [(''orgId'', ''org2'')] (Some newClientBody) (Some ''owner'')) sampleWorld) =
     snd (postClientHandler collidingDeps
       (reqOf [(''orgId'', ''org2'')] (Some newClientBody) (Some ''owner'')) sampleWorld)"
proof -
  let ?req = "reqOf [(''orgId'', ''org2'')] (Some newClientBody) (Some ''owner'')"
  have pre: "assertAuthdReq sampleDeps ?req = Inr ''owner'' \<and> assertAuth sampleDeps ''owner'' = None \<and>
      param ?req ''orgId'' = Some ''org2'' \<and> PostClientValidator (body ?req) = Some ''app'' \<and>
      fst (io_get_organization ''org2'' sampleWorld) = Inr \<lparr>orgId = ''org2'', orgName = ''Two''\<rparr> \<and>
      authorizeCallerForRole sampleDeps ''org2'' ''owner'' ''manage''
        (snd (io_get_organization ''org2'' sampleWorld)) = None"
    by (simp add: sample_defs)
  have hashed: "hashOf sampleDeps sampleWorld = ''bcrypt:'' @ secretOf sampleDeps sampleWorld"
    by (simp add: hashOf_def sampleDeps_def)
  have row: "newRow sampleDeps ''org2'' ''app'' sampleWorld =
      \<lparr>id' = ''n'', organizationId = ''org2'', name = ''app'',
       secretBcrypt = hashOf sampleDeps sampleWorld, reqsPerSec = 10\<rparr>"
    by (simp add: newRow_def sampleDeps_def sampleWorld_def)
  have api: "(dbToApi sampleDeps (newRow sampleDeps ''org2'' ''app'' sampleWorld))
      \<lparr>roles := rolesOf (snd (postClientHandler sampleDeps ?req sampleWorld))
          (apiId (dbToApi sampleDeps (newRow sampleDeps ''org2'' ''app'' sampleWorld)))\<rparr> =
      \<lparr>apiId = ''n'', roles = [EXTERNAL]\<rparr>"
    by (simp add: postClientHandler_def createClient_eq addRoles_One sample_defs newRow_def)
  have agree: "\<forall>i. i < drawn sampleWorld \<or> drawn sampleWorld + 32 \<le> i \<longrightarrow>
      otherEntropy i = entropy collidingDeps i"
    by (simp add: otherEntropy_def collidingDeps_def sampleDeps_def sampleWorld_def)
  have collide: "hashOf (collidingDeps\<lparr>entropy := otherEntropy\<rparr>) sampleWorld =
      hashOf collidingDeps sampleWorld"
    using otherSecret_sample by (simp add: hashOf_def collidingDeps_def)
  note inst1 = createClient_secret_only_hashed[where r = sampleDeps and req = ?req
      and w = sampleWorld and a = "''owner''" and oid = "''org2''" and n = "''app''"
      and org = "\<lparr>orgId = ''org2'', orgName = ''Two''\<rparr>"]
  note inst2 = createClient_secret_only_hashed[where r = collidingDeps and req = ?req
      and w = sampleWorld and e = otherEntropy]
  have p1: "fst (postClientHandler sampleDeps ?req sampleWorld) =
      Inr (Response 201 (SingleWithSecret \<lparr>apiId = ''n'', roles = [EXTERNAL]\<rparr>
        (secretOf sampleDeps sampleWorld))) \<and>
      clients (snd (postClientHandler sampleDeps ?req sampleWorld)) =
        clients sampleWorld @ [newRow sampleDeps ''org2'' ''app'' sampleWorld]"
    using inst1 pre api by simp
  have p2: "snd (postClientHandler (collidingDeps\<lparr>entropy := otherEntropy\<rparr>) ?req sampleWorld) =
      snd (postClientHandler collidingDeps ?req sampleWorld)"
    using inst2 agree collide by blast
  show ?thesis
    using p1 p2 row hashed secretOf_sample otherSecret_sample by simp
qed

text \<open>
  C2. A response of \<open>getClientsForOrgHandler\<close> implies that the caller is authorized at
  level read, one of \<open>postClientHandler\<close> that the caller is authorized at level manage,
  for the organization named in the path. Without the read authorization the GET ends in
  an error having read at most the organization. Without the manage authorization the
  POST ends in an error, the clients and the client roles are as before and no save has
  been made; when it is \<open>authorizeCallerForRole\<close> that fails, its error is the result.
\<close>

theorem handlers_authorize_first:
  "(\<forall>resp w'. getClientsForOrgHandler r req w = (Inr resp, w') \<longrightarrow>
      callerAuthorized r req ''read'' w) \<and>
   (\<forall>resp w'. postClientHandler r req w = (Inr resp, w') \<longrightarrow>
      callerAuthorized r req ''manage'' w) \<and>
   (\<not> callerAuthorized r req ''read'' w \<longrightarrow>
      (\<exists>e. fst (getClientsForOrgHandler r req w) = Inl e) \<and>
      (calls (snd (getClientsForOrgHandler r req w)) = calls w \<or>
       (\<exists>oid. calls (snd (getClientsForOrgHandler r req w)) =
                calls w @ [IoGet ''organizations'' (ById oid)]))) \<and>
   (\<not> callerAuthorized r req ''manage'' w \<longrightarrow>
      (\<exists>e. fst (postClientHandler r req w) = Inl e) \<and>
      clients (snd (postClientHandler r req w)) = clients w \<and>
      clientRoles (snd (postClientHandler r req w)) = clientRoles w \<and>
      filter isSave (calls (snd (postClientHandler r req w))) = filter isSave (calls w)) \<and>
   (assertAuthdReq r req = Inr a \<and> assertAuth r a = None \<and> param req ''orgId'' = Some oid \<and>
    PostClientValidator (body req) = Some n \<and> fst (io_get_organization oid w) = Inr org \<and>
    authorizeCallerForRole r oid a ''manage'' (snd (io_get_organization oid w)) = Some e \<longrightarrow>
      postClientHandler r req w = (Inl e, snd (io_get_organization oid w)))"
proof -
  have p5: "postClientHandler r req w = (Inl e, snd (io_get_organization oid w))"
    if "assertAuthdReq r req = Inr a" "assertAuth r a = None" "param req ''orgId'' = Some oid"
      "PostClientValidator (body req) = Some n" "fst (io_get_organization oid w) = Inr org"
      "authorizeCallerForRole r oid a ''manage'' (snd (io_get_organization oid w)) = Some e"
    using that
    by (cases "io_get_organization oid w") (simp add: postClientHandler_def del: io_get_organization_snd)
  have p3: "calls (snd (getClientsForOrgHandler r req w)) = calls w \<or>
       (\<exists>oid. calls (snd (getClientsForOrgHandler r req w)) =
                calls w @ [IoGet ''organizations'' (ById oid)])"
    if "\<not> callerAuthorized r req ''read'' w"
    using get_unauthorized[OF that] by auto
  have p4: "clients (snd (postClientHandler r req w)) = clients w \<and>
      clientRoles (snd (postClientHandler r req w)) = clientRoles w \<and>
      filter isSave (calls (snd (postClientHandler r req w))) = filter isSave (calls w)"
    if "\<not> callerAuthorized r req ''manage'' w"
    using post_unauthorized[OF that] by auto
  show ?thesis
    using get_success_authorized[of r req w] post_success_authorized[of r req w]
      get_unauthorized[of r req w] post_unauthorized[of r req w] p3 p4 p5
    by blast
qed

theorem handlers_authorize_first_witness:
  "postClientHandler sampleDeps (reqOf [(''orgId'', ''org2'')] (Some newClientBody) (Some ''viewer''))
      sampleWorld =
     (Inl (Forbidden ''forbidden'' None),
      sampleWorld\<lparr>calls := [IoGet ''organizations'' (ById ''org2'')]\<rparr>) \<and>
   clients (snd (postClientHandler sampleDeps
      (reqOf [(''orgId'', ''org2'')] (Some newClientBody) (Some ''viewer'')) sampleWorld)) =
     clients sampleWorld \<and>
   callerAuthorized sampleDeps (reqOf [(''orgId'', ''org2'')] (Some newClientBody) (Some ''owner''))
     ''manage'' sampleWorld \<and>
   callerAuthorized sampleDeps (reqOf [(''orgId'', ''org1''), (''id'', ''a'')] None (Some ''viewer''))
     ''read'' sampleWorld"
proof -
  let ?viewer = "reqOf [(''orgId'', ''org2'')] (Some newClientBody) (Some ''viewer'')"
  let ?owner = "reqOf [(''orgId'', ''org2'')] (Some newClientBody) (Some ''owner'')"
  let ?reader = "reqOf [(''orgId'', ''org1''), (''id'', ''a'')] None (Some ''viewer'')"
  have no: "\<not> callerAuthorized sampleDeps ?viewer ''manage'' sampleWorld"
    by (simp add: callerAuthorized_def sample_defs)
  have fails: "assertAuthdReq sampleDeps ?viewer = Inr ''viewer'' \<and>
      assertAuth sampleDeps ''viewer'' = None \<and> param ?viewer ''orgId'' = Some ''org2'' \<and>
      PostClientValidator (body ?viewer) = Some ''app'' \<and>
      fst (io_get_organization ''org2'' sampleWorld) = Inr \<lparr>orgId = ''org2'', orgName = ''Two''\<rparr> \<and>
      authorizeCallerForRole sampleDeps ''org2'' ''viewer'' ''manage''
        (snd (io_get_organization ''org2'' sampleWorld)) = Some (Forbidden ''forbidden'' None)"
    by (simp add: sample_defs)
  have ok1: "\<exists>resp w'. postClientHandler sampleDeps ?owner sampleWorld = (Inr resp, w')"
    by (simp add: postClientHandler_def createClient_eq addRoles_One sample_defs)
  have ok2: "\<exists>resp w'. getClientsForOrgHandler sampleDeps ?reader sampleWorld = (Inr resp, w')"
    by (simp add: getClientsForOrgHandler_def addRoles_One sample_defs)
  show ?thesis
    using handlers_authorize_first[where r = sampleDeps and req = ?viewer and w = sampleWorld
        and a = "''viewer''" and oid = "''org2''" and n = "''app''"
        and org = "\<lparr>orgId = ''org2'', orgName = ''Two''\<rparr>" and e = "Forbidden ''forbidden'' None"]
      handlers_authorize_first[where r = sampleDeps and req = ?owner and w = sampleWorld]
      handlers_authorize_first[where r = sampleDeps and req = ?reader and w = sampleWorld]
      no fails ok1 ok2
    by (auto simp: journal_def sampleWorld_def)
qed

text \<open>
  C3, as stated, fails. The store holds client b, of organization org2, and the request
  asks for it under org1, but the caller is refused at level read: the handler ends in
  the Forbidden error of the authorization, which runs before the client is looked up,
  not in a NotFound error.
\<close>

theorem refused_caller_is_not_told_not_found:
  "param (reqOf [(''orgId'', ''org1''), (''id'', ''b'')] None (Some ''viewer'')) ''orgId'' = Some ''org1'' \<and>
   param (reqOf [(''orgId'', ''org1''), (''id'', ''b'')] None (Some ''viewer'')) ''id'' = Some ''b'' \<and>
   map_option organizationId (find (\<lambda>row. id' row = ''b'') (clients sampleWorld)) = Some ''org2'' \<and>
   fst (getClientsForOrgHandler refusingDeps
     (reqOf [(''orgId'', ''org1''), (''id'', ''b'')] None (Some ''viewer'')) sampleWorld) =
     Inl (Forbidden ''forbidden'' None) \<and>
   \<not> isNotFound (Forbidden ''forbidden'' None)"
  by (simp add: getClientsForOrgHandler_def refusingDeps_def sample_defs)

text \<open>
  C3, amended. When the path names an organization and a client id, the store holds a
  client of that id, and that client belongs to another organization,
  \<open>getClientsForOrgHandler\<close> ends in an error: in the NotFound error
  GET-CLIENT_CLIENT-NOT-FOUND once the request is authenticated, the organization exists
  and the caller may read, and before that in the error of the step that fails first
  (the two assertions on the auth object, the lookup of the organization, the
  authorization at level read). So every 200 with a single client carries the stored
  client of the requested id, translated and with its roles, and the organization of
  that client is the one the path names.
\<close>

theorem client_of_other_org_not_found:
  "(param req ''orgId'' = Some oid \<and> param req ''id'' = Some cid \<and>
    find (\<lambda>row. id' row = cid) (clients w) = Some client \<and> organizationId client \<noteq> oid \<longrightarrow>
      (\<exists>e. fst (getClientsForOrgHandler r req w) = Inl e) \<and>
      (assertAuthdReq r req = Inr a \<and> assertAuth r a = None \<and>
       find (\<lambda>row. orgId row = oid) (organizations w) \<noteq> None \<and>
       callerAuthorized r req ''read'' w \<longrightarrow>
         fst (getClientsForOrgHandler r req w) = Inl clientNotFound)) \<and>
   isNotFound clientNotFound \<and>
   (\<forall>st c w'. getClientsForOrgHandler r req w = (Inr (Response st (Single c)), w') \<longrightarrow>
      (\<exists>found cid'. param req ''id'' = Some cid' \<and>
         find (\<lambda>row. id' row = cid') (clients w) = Some found \<and>
         param req ''orgId'' = Some (organizationId found) \<and> st = 200 \<and>
         c = (dbToApi r found)\<lparr>roles := rolesOf w (apiId (dbToApi r found))\<rparr>)) \<and>
   (assertAuthdReq r req = Inl e \<longrightarrow> getClientsForOrgHandler r req w = (Inl e, w)) \<and>
   (assertAuthdReq r req = Inr a \<and> assertAuth r a = Some e \<longrightarrow>
      getClientsForOrgHandler r req w = (Inl e, w)) \<and>
   (assertAuthdReq r req = Inr a \<and> assertAuth r a = None \<and> param req ''orgId'' = Some oid \<and>
    fst (io_get_organization oid w) = Inl e \<longrightarrow>
      getClientsForOrgHandler r req w = (Inl e, snd (io_get_organization oid w))) \<and>
   (assertAuthdReq r req = Inr a \<and> assertAuth r a = None \<and> param req ''orgId'' = Some oid \<and>
    fst (io_get_organization oid w) = Inr org \<and>
    authorizeCallerForRole r oid a ''read'' (snd (io_get_organization oid w)) = Some e \<longrightarrow>
      getClientsForOrgHandler r req w = (Inl e, snd (io_get_organization oid w)))"
proof -
  have mismatch: "param req ''orgId'' = Some oid \<and> param req ''id'' = Some cid \<and>
    find (\<lambda>row. id' row = cid) (clients w) = Some client \<and> organizationId client \<noteq> oid \<longrightarrow>
      (\<exists>e. fst (getClientsForOrgHandler r req w) = Inl e) \<and>
      (assertAuthdReq r req = Inr a \<and> assertAuth r a = None \<and>
       find (\<lambda>row. orgId row = oid) (organizations w) \<noteq> None \<and>
       callerAuthorized r req ''read'' w \<longrightarrow>
         fst (getClientsForOrgHandler r req w) = Inl clientNotFound)"
    by (auto simp: getClientsForOrgHandler_def callerAuthorized_def io_get_organization_def
        io_get_client_def journal_def
        split: sum.splits option.splits prod.splits if_splits)
  have nf: "isNotFound clientNotFound"
    by (simp add: clientNotFound_def)
  have single: "\<forall>st c w'. getClientsForOrgHandler r req w = (Inr (Response st (Single c)), w') \<longrightarrow>
      (\<exists>found cid'. param req ''id'' = Some cid' \<and>
         find (\<lambda>row. id' row = cid') (clients w) = Some found \<and>
         param req ''orgId'' = Some (organizationId found) \<and> st = 200 \<and>
         c = (dbToApi r found)\<lparr>roles := rolesOf w (apiId (dbToApi r found))\<rparr>)"
    by (auto simp: getClientsForOrgHandler_def io_get_organization_def addRoles_One asSingle_def
        io_get_client_def journal_def rolesOf_def
        split: sum.splits option.splits prod.splits if_splits)
  show ?thesis
    using mismatch nf single get_earlier_errors[of r req e w a oid org]
    by (intro conjI) (elim conjE, assumption)+
qed

theorem client_of_other_org_not_found_witness:
  "fst (getClientsForOrgHandler sampleDeps (reqOf [(''orgId'', ''org1''), (''id'', ''b'')] None (Some ''viewer''))
     sampleWorld) = Inl clientNotFound \<and>
   fst (getClientsForOrgHandler sampleDeps (reqOf [(''orgId'', ''org1''), (''id'', ''a'')] None (Some ''viewer''))
     sampleWorld) = Inr (Response 200 (Single \<lparr>apiId = ''a'', roles = [EXTERNAL, TRUSTED]\<rparr>)) \<and>
   fst (getClientsForOrgHandler refusingDeps (reqOf [(''orgId'', ''org1''), (''id'', ''b'')] None (Some ''viewer''))
     sampleWorld) = Inl (Forbidden ''forbidden'' None)"
proof -
  let ?other = "reqOf [(''orgId'', ''org1''), (''id'', ''b'')] None (Some ''viewer'')"
  let ?own = "reqOf [(''orgId'', ''org1''), (''id'', ''a'')] None (Some ''viewer'')"
  let ?b = "\<lparr>id' = ''b'', organizationId = ''org2'', name = ''second'', secretBcrypt = ''y'',
              reqsPerSec = 10\<rparr>"
  have pre: "param ?other ''orgId'' = Some ''org1'' \<and> param ?other ''id'' = Some ''b'' \<and>
      find (\<lambda>row. id' row = ''b'') (clients sampleWorld) = Some ?b \<and>
      organizationId ?b \<noteq> ''org1'' \<and>
      assertAuthdReq sampleDeps ?other = Inr ''viewer'' \<and> assertAuth sampleDeps ''viewer'' = None \<and>
      find (\<lambda>row. orgId row = ''org1'') (organizations sampleWorld) \<noteq> None \<and>
      callerAuthorized sampleDeps ?other ''read'' sampleWorld"
    by (simp add: callerAuthorized_def sample_defs)
  have refused: "assertAuthdReq refusingDeps ?other = Inr ''viewer'' \<and>
      assertAuth refusingDeps ''viewer'' = None \<and>
      fst (io_get_organization ''org1'' sampleWorld) = Inr \<lparr>orgId = ''org1'', orgName = ''One''\<rparr> \<and>
      authorizeCallerForRole refusingDeps ''org1'' ''viewer'' ''read''
        (snd (io_get_organization ''org1'' sampleWorld)) = Some (Forbidden ''forbidden'' None)"
    by (simp add: refusingDeps_def io_get_organization_def sample_defs)
  have own: "fst (getClientsForOrgHandler sampleDeps ?own sampleWorld) =
      Inr (Response 200 (Single \<lparr>apiId = ''a'', roles = [EXTERNAL, TRUSTED]\<rparr>))"
    by (simp add: getClientsForOrgHandler_def addRoles_One sample_defs)
  have one: "fst (getClientsForOrgHandler sampleDeps ?other sampleWorld) = Inl clientNotFound"
    using client_of_other_org_not_found[where r = sampleDeps and req = ?other and w = sampleWorld
        and oid = "''org1''" and cid = "''b''" and a = "''viewer''" and client = ?b] pre
    by blast
  have two: "fst (getClientsForOrgHandler refusingDeps ?other sampleWorld) =
      Inl (Forbidden ''forbidden'' None)"
    using client_of_other_org_not_found[where r = refusingDeps and req = ?other and w = sampleWorld
        and oid = "''org1''" and a = "''viewer''" and e = "Forbidden ''forbidden'' None"
        and org = "\<lparr>orgId = ''org1'', orgName = ''One''\<rparr>"] pre refused
    by simp
  show ?thesis
    using one two own by simp
qed

text \<open>
  C8, as stated, fails. A request without the route parameter \<open>orgId\<close> and without an
  auth object ends, in both handlers, in the error of the assertion that the request is
  authenticated, which runs before the parameter is looked at: not in the
  InternalServerError GET-CLIENTS-BAD-PARAMS.
\<close>

theorem unauthenticated_request_without_orgId:
  "param (reqOf [] (Some newClientBody) None) ''orgId'' = None \<and>
   getClientsForOrgHandler sampleDeps (reqOf [] (Some newClientBody) None) sampleWorld =
     (Inl (Unauthorized ''no auth'' None), sampleWorld) \<and>
   postClientHandler sampleDeps (reqOf [] (Some newClientBody) None) sampleWorld =
     (Inl (Unauthorized ''no auth'' None), sampleWorld) \<and>
   \<not> isInternalServerError (Unauthorized ''no auth'' None) \<and>
   subcode (Unauthorized ''no auth'' None) = None"
  by (simp add: getClientsForOrgHandler_def postClientHandler_def sample_defs)

text \<open>
  C8, amended. When the route parameter \<open>orgId\<close> is missing (absent or empty),
  \<open>getClientsForOrgHandler\<close> and \<open>postClientHandler\<close> end in an error and leave the world
  as it was: nothing is read, nothing is written. For a request that passes the two
  assertions on its auth object, which run first, the error is the InternalServerError
  with the code GET-CLIENTS-BAD-PARAMS, which is neither a BadRequest nor a NotFound;
  for a request that fails one of them, it is the error of that assertion.
\<close>

theorem missing_orgId_is_programmer_fault:
  "(param req ''orgId'' = None \<longrightarrow>
      (\<exists>e. fst (getClientsForOrgHandler r req w) = Inl e) \<and>
      snd (getClientsForOrgHandler r req w) = w \<and>
      (\<exists>e. fst (postClientHandler r req w) = Inl e) \<and>
      snd (postClientHandler r req w) = w \<and>
      (assertAuthdReq r req = Inr a \<and> assertAuth r a = None \<longrightarrow>
         getClientsForOrgHandler r req w = (Inl badParams, w) \<and>
         postClientHandler r req w = (Inl badParams, w))) \<and>
   isInternalServerError badParams \<and> subcode badParams = Some ''GET-CLIENTS-BAD-PARAMS'' \<and>
   \<not> isBadRequest badParams \<and> \<not> isNotFound badParams \<and>
   (assertAuthdReq r req = Inl e \<longrightarrow>
      getClientsForOrgHandler r req w = (Inl e, w) \<and> postClientHandler r req w = (Inl e, w)) \<and>
   (assertAuthdReq r req = Inr a \<and> assertAuth r a = Some e \<longrightarrow>
      getClientsForOrgHandler r req w = (Inl e, w) \<and> postClientHandler r req w = (Inl e, w))"
proof -
  have missing: "param req ''orgId'' = None \<longrightarrow>
      (\<exists>e. fst (getClientsForOrgHandler r req w) = Inl e) \<and>
      snd (getClientsForOrgHandler r req w) = w \<and>
      (\<exists>e. fst (postClientHandler r req w) = Inl e) \<and>
      snd (postClientHandler r req w) = w \<and>
      (assertAuthdReq r req = Inr a \<and> assertAuth r a = None \<longrightarrow>
         getClientsForOrgHandler r req w = (Inl badParams, w) \<and>
         postClientHandler r req w = (Inl badParams, w))"
    by (auto simp: getClientsForOrgHandler_def postClientHandler_def
        split: sum.splits option.splits prod.splits if_splits)
  have k1: "isInternalServerError badParams"
    and k2: "subcode badParams = Some ''GET-CLIENTS-BAD-PARAMS''"
    and k3: "\<not> isBadRequest badParams"
    and k4: "\<not> isNotFound badParams"
    by (simp_all add: badParams_def)
  have a1: "assertAuthdReq r req = Inl e \<longrightarrow>
      getClientsForOrgHandler r req w = (Inl e, w) \<and> postClientHandler r req w = (Inl e, w)"
    and a2: "assertAuthdReq r req = Inr a \<and> assertAuth r a = Some e \<longrightarrow>
      getClientsForOrgHandler r req w = (Inl e, w) \<and> postClientHandler r req w = (Inl e, w)"
    using assertion_errors[of r req e w a] by simp_all
  show ?thesis
    using missing k1 k2 k3 k4 a1 a2 by (intro conjI)
qed

theorem missing_orgId_is_programmer_fault_witness:
  "getClientsForOrgHandler sampleDeps (reqOf [(''id'', ''a'')] None (Some ''viewer'')) sampleWorld =
     (Inl badParams, sampleWorld) \<and>
   postClientHandler sampleDeps (reqOf [(''orgId'', [])] (Some newClientBody) (Some ''owner''))
     sampleWorld = (Inl badParams, sampleWorld) \<and>
   postClientHandler sampleDeps (reqOf [] (Some newClientBody) None) sampleWorld =
     (Inl (Unauthorized ''no auth'' None), sampleWorld)"
proof -
  let ?g = "reqOf [(''id'', ''a'')] None (Some ''viewer'')"
  let ?p = "reqOf [(''orgId'', [])] (Some newClientBody) (Some ''owner'')"
  let ?u = "reqOf [] (Some newClientBody) None"
  have pre: "param ?g ''orgId'' = None \<and> assertAuthdReq sampleDeps ?g = Inr ''viewer'' \<and>
      assertAuth sampleDeps ''viewer'' = None \<and>
      param ?p ''orgId'' = None \<and> assertAuthdReq sampleDeps ?p = Inr ''owner'' \<and>
      assertAuth sampleDeps ''owner'' = None \<and>
      assertAuthdReq sampleDeps ?u = Inl (Unauthorized ''no auth'' None)"
    by (simp add: sample_defs)
  have g: "getClientsForOrgHandler sampleDeps ?g sampleWorld = (Inl badParams, sampleWorld)"
    using missing_orgId_is_programmer_fault[where r = sampleDeps and req = ?g and w = sampleWorld
        and a = "''viewer''"] pre by blast
  have p: "postClientHandler sampleDeps ?p sampleWorld = (Inl badParams, sampleWorld)"
    using missing_orgId_is_programmer_fault[where r = sampleDeps and req = ?p and w = sampleWorld
        and a = "''owner''"] pre by blast
  have u: "postClientHandler sampleDeps ?u sampleWorld =
      (Inl (Unauthorized ''no auth'' None), sampleWorld)"
    using missing_orgId_is_programmer_fault[where r = sampleDeps and req = ?u and w = sampleWorld
        and e = "Unauthorized ''no auth'' None"] pre by blast
  show ?thesis
    using g p u by simp
qed

section \<open>Properties of the accounts module\<close>

text \<open>
  C6. A request whose Content-Type header is absent, or is not application/json compared
  without regard to case, is failed by the body-parsing middleware with an
  UnsupportedMediaType error, whatever its body and whatever the parser would make of
  it. So for every registration of \<open>register\<close> that has the body parser in its stack, the
  stack fails such a request with that error and the parser is the only item that ran:
  the handler did not. The same holds of the router when that registration is the one
  it stops at and the registration handles the request.
\<close>

theorem body_parser_requires_json_content_type:
  "(\<not> contentTypeIsJson (reqGet req ''content-type'') \<longrightarrow>
      getParseBodyFunc json allow req = Fail (unsupportedMediaType (reqGet req ''content-type''))) \<and>
   isUnsupportedMediaType (unsupportedMediaType ct) \<and>
   (rt \<in> set register \<and> (ParseBody \<in> set (stack rt) \<or> ParseBodyAllowBlank \<in> set (stack rt)) \<and>
    \<not> contentTypeIsJson (reqGet req ''content-type'') \<longrightarrow>
      runStack json handlers (stack rt) req =
        (Fail (unsupportedMediaType (reqGet req ''content-type'')), [hd (stack rt)]) \<and>
      (hd (stack rt) = ParseBody \<or> hd (stack rt) = ParseBodyAllowBlank) \<and>
      (find (\<lambda>rt. routeStops rt req) register = Some rt \<and> routeMatches rt req \<longrightarrow>
         dispatch json handlers register req =
           (Fail (unsupportedMediaType (reqGet req ''content-type'')), [hd (stack rt)])))"
proof -
  have st: "runStack json handlers (stack rt) req =
        (Fail (unsupportedMediaType (reqGet req ''content-type'')), [hd (stack rt)]) \<and>
      (hd (stack rt) = ParseBody \<or> hd (stack rt) = ParseBodyAllowBlank)"
    if "rt \<in> set register" "ParseBody \<in> set (stack rt) \<or> ParseBodyAllowBlank \<in> set (stack rt)"
      "\<not> contentTypeIsJson (reqGet req ''content-type'')"
    using stack_unsupported[OF that] .
  have di: "dispatch json handlers register req =
           (Fail (unsupportedMediaType (reqGet req ''content-type'')), [hd (stack rt)])"
    if "rt \<in> set register" "ParseBody \<in> set (stack rt) \<or> ParseBodyAllowBlank \<in> set (stack rt)"
      "\<not> contentTypeIsJson (reqGet req ''content-type'')"
      "find (\<lambda>rt. routeStops rt req) register = Some rt" "routeMatches rt req"
    using dispatch_first_match[OF that(4,5), of json handlers] st[OF that(1,2,3)] by simp
  show ?thesis
    using parse_unsupported[of req json allow] st di
    by (simp add: unsupportedMediaType_def)
qed

theorem body_parser_requires_json_content_type_witness:
  "dispatch sampleJson sampleHandlers register
     (accountsRequest ''POST'' ''/accounts/v1/users'' [(''content-type'', ''text/plain'')]
        (Some (JObj [(''email'', JStr ''a@b.c'')]))) =
     (Fail (unsupportedMediaType (Some ''text/plain'')), [ParseBody]) \<and>
   runStack sampleJson sampleHandlers [ParseBodyAllowBlank, Handler HandlePostSessionsLogout]
     (accountsRequest ''POST'' ''/accounts/v1/sessions/logout'' [] None) =
     (Fail (unsupportedMediaType None), [ParseBodyAllowBlank])"
proof -
  let ?users = "accountsRequest ''POST'' ''/accounts/v1/users'' [(''content-type'', ''text/plain'')]
        (Some (JObj [(''email'', JStr ''a@b.c'')]))"
  let ?logout = "accountsRequest ''POST'' ''/accounts/v1/sessions/logout'' [] None"
  let ?rt1 = "route (Some ''post'') [''/accounts/v1/users''] [ParseBody, Handler PostUsers]"
  let ?rt2 = "route (Some ''post'') [''/accounts/v1/sessions/logout'']
      [ParseBodyAllowBlank, Handler HandlePostSessionsLogout]"
  have pre1: "?rt1 \<in> set register \<and> ParseBody \<in> set (stack ?rt1) \<and>
      reqGet ?users ''content-type'' = Some ''text/plain'' \<and>
      \<not> contentTypeIsJson (Some ''text/plain'')"
    by (simp add: register_def route_def accounts_sample_defs)
  have first: "find (\<lambda>rt. routeStops rt ?users) register = Some ?rt1 \<and> routeMatches ?rt1 ?users"
    by (simp add: route_eval accounts_sample_defs)
  have pre2: "?rt2 \<in> set register \<and> ParseBodyAllowBlank \<in> set (stack ?rt2) \<and>
      reqGet ?logout ''content-type'' = None \<and> \<not> contentTypeIsJson None \<and>
      stack ?rt2 = [ParseBodyAllowBlank, Handler HandlePostSessionsLogout]"
    by (simp add: register_def route_def accounts_sample_defs)
  show ?thesis
    using body_parser_requires_json_content_type[where rt = ?rt1 and req = ?users
        and json = sampleJson and handlers = sampleHandlers]
      body_parser_requires_json_content_type[where rt = ?rt2 and req = ?logout
        and json = sampleJson and handlers = sampleHandlers]
      pre1 pre2 first
    by (simp add: route_def)
qed

text \<open>
  C7. Take a POST request that has passed the content-type check and that the parser has
  parsed without error into a missing body or an empty object. On
  /accounts/v1/sessions/logout the body-parsing middleware passes it on and the logout
  handler runs. On each of the four login steps and on refresh the request is failed
  with the BadRequest error for a blank body, and only the parser ran. On these five,
  a request whose body can only parse to a missing body or an empty object is failed
  before the handler in every case, also when it is the content-type check or the parser
  that fails it.
\<close>

theorem logout_accepts_blank_body:
  "(reqMethod req = ''POST'' \<and> contentTypeIsJson (reqGet req ''content-type'') \<and>
    json req = Inr b \<and> (b = None \<or> b = Some (JObj [])) \<longrightarrow>
      (reqPath req = ''/accounts/v1/sessions/logout'' \<longrightarrow>
         parseBodyAllowBlank json req = Next (req\<lparr>body := b\<rparr>) \<and>
         take 2 (snd (dispatch json handlers register req)) =
           [ParseBodyAllowBlank, Handler HandlePostSessionsLogout]) \<and>
      (reqPath req \<in> set sessionsBodyPaths \<longrightarrow>
         dispatch json handlers register req =
           (Fail (blankBody (reqGet req ''content-type'')), [ParseBody]) \<and>
         isBadRequest (blankBody (reqGet req ''content-type'')))) \<and>
   (reqMethod req = ''POST'' \<and> reqPath req \<in> set sessionsBodyPaths \<and>
    (\<forall>v. json req = Inr v \<longrightarrow> v = None \<or> v = Some (JObj [])) \<longrightarrow>
      (\<exists>e. dispatch json handlers register req = (Fail e, [ParseBody])))"
proof -
  have failing: "dispatch json handlers register req = (Fail e, [ParseBody])"
    if m: "reqMethod req = ''POST''" and p: "reqPath req \<in> set sessionsBodyPaths"
      and pr: "parseBody json req = Fail e" for e
  proof -
    from sessions_first_match[OF m p] obtain h where
      f: "find (\<lambda>rt. routeStops rt req) register =
         Some (route (Some ''post'') [reqPath req] [ParseBody, Handler h])" by blast
    have rm: "routeMatches (route (Some ''post'') [reqPath req] [ParseBody, Handler h]) req"
      using literal_route_matches[OF m, of "reqPath req"] p by simp
    have "runStack json handlers (stack (route (Some ''post'') [reqPath req] [ParseBody, Handler h])) req =
            (Fail e, [ParseBody])"
      using pr by (simp add: route_def)
    from dispatch_first_match[OF f rm this] show ?thesis by simp
  qed
  have main: "(reqPath req = ''/accounts/v1/sessions/logout'' \<longrightarrow>
         parseBodyAllowBlank json req = Next (req\<lparr>body := b\<rparr>) \<and>
         take 2 (snd (dispatch json handlers register req)) =
           [ParseBodyAllowBlank, Handler HandlePostSessionsLogout]) \<and>
      (reqPath req \<in> set sessionsBodyPaths \<longrightarrow>
         dispatch json handlers register req =
           (Fail (blankBody (reqGet req ''content-type'')), [ParseBody]) \<and>
         isBadRequest (blankBody (reqGet req ''content-type'')))"
    if m: "reqMethod req = ''POST''"
      and ct: "contentTypeIsJson (reqGet req ''content-type'')"
      and js: "json req = Inr b"
      and bl: "b = None \<or> b = Some (JObj [])"
  proof -
    have blank: "bodyIsBlank b"
      using bl by (auto simp: bodyIsBlank_def)
    have pa: "parseBodyAllowBlank json req = Next (req\<lparr>body := b\<rparr>)"
      using ct js by (simp add: parseBodyAllowBlank_def getParseBodyFunc_def badContentType_iff)
    have pr: "parseBody json req = Fail (blankBody (reqGet req ''content-type''))"
      using ct js blank by (simp add: parseBody_def getParseBodyFunc_def badContentType_iff)
    have logout: "take 2 (snd (dispatch json handlers register req)) =
                    [ParseBodyAllowBlank, Handler HandlePostSessionsLogout]"
      if p: "reqPath req = ''/accounts/v1/sessions/logout''"
    proof -
      let ?rt = "route (Some ''post'') [''/accounts/v1/sessions/logout'']
                   [ParseBodyAllowBlank, Handler HandlePostSessionsLogout]"
      have f: "find (\<lambda>rt. routeStops rt req) register = Some ?rt"
        using sessions_routes(1)[OF m p] .
      have rm: "routeMatches ?rt req"
        using literal_route_matches[OF m, of "reqPath req"] p by simp
      from dispatch_trace_prefix[OF f rm, of json handlers] obtain rest where
        "snd (dispatch json handlers register req) =
           snd (runStack json handlers (stack ?rt) req) @ rest"
        by blast
      moreover have "snd (runStack json handlers (stack ?rt) req) =
          [ParseBodyAllowBlank, Handler HandlePostSessionsLogout]"
        using pa by (simp add: route_def split: Outcome.splits)
      ultimately show ?thesis by simp
    qed
    show ?thesis
      using logout failing[OF m _ pr] pa by (simp add: blankBody_def)
  qed
  have never: "\<exists>e. dispatch json handlers register req = (Fail e, [ParseBody])"
    if m: "reqMethod req = ''POST''" and p: "reqPath req \<in> set sessionsBodyPaths"
      and bl: "\<forall>v. json req = Inr v \<longrightarrow> v = None \<or> v = Some (JObj [])"
  proof -
    have "\<exists>e. parseBody json req = Fail e"
      using bl
      by (cases "json req")
        (auto simp: parseBody_def getParseBodyFunc_def bodyIsBlank_def Let_def)
    then show ?thesis using failing[OF m p] by blast
  qed
  show ?thesis
    using main never by blast
qed

theorem logout_accepts_blank_body_witness:
  "dispatch sampleJson sampleHandlers register
     (accountsRequest ''POST'' ''/accounts/v1/sessions/logout''
        [(''content-type'', ''Application/JSON'')] None) =
     (Sent, [ParseBodyAllowBlank, Handler HandlePostSessionsLogout]) \<and>
   dispatch sampleJson sampleHandlers register
     (accountsRequest ''POST'' ''/accounts/v1/sessions/refresh''
        [(''content-type'', ''application/json'')] (Some (JObj []))) =
     (Fail (blankBody (Some ''application/json'')), [ParseBody]) \<and>
   dispatch sampleJson sampleHandlers register
     (accountsRequest ''POST'' ''/accounts/v1/sessions/login/email''
        [(''content-type'', ''application/json'')] None) =
     (Fail (blankBody (Some ''application/json'')), [ParseBody])"
proof -
  let ?logout = "accountsRequest ''POST'' ''/accounts/v1/sessions/logout''
        [(''content-type'', ''Application/JSON'')] None"
  let ?refresh = "accountsRequest ''POST'' ''/accounts/v1/sessions/refresh''
        [(''content-type'', ''application/json'')] (Some (JObj []))"
  let ?email = "accountsRequest ''POST'' ''/accounts/v1/sessions/login/email''
        [(''content-type'', ''application/json'')] None"
  have pre1: "reqMethod ?logout = ''POST'' \<and> contentTypeIsJson (reqGet ?logout ''content-type'') \<and>
      sampleJson ?logout = Inr None \<and> reqPath ?logout = ''/accounts/v1/sessions/logout''"
    by (simp add: accounts_sample_defs)
  have ctj: "contentTypeIsJson (Some ''application/json'')"
    by (simp add: contentTypeIsJson_def toLowerCase_def)
  have pre2: "reqMethod ?refresh = ''POST'' \<and>
      sampleJson ?refresh = Inr (Some (JObj [])) \<and> reqPath ?refresh \<in> set sessionsBodyPaths \<and>
      reqGet ?refresh ''content-type'' = Some ''application/json''"
    by (simp add: accounts_sample_defs sessionsBodyPaths_def)
  have pre3: "reqMethod ?email = ''POST'' \<and>
      sampleJson ?email = Inr None \<and> reqPath ?email \<in> set sessionsBodyPaths \<and>
      reqGet ?email ''content-type'' = Some ''application/json''"
    by (simp add: accounts_sample_defs sessionsBodyPaths_def)
  have first: "find (\<lambda>rt. routeStops rt ?logout) register =
      Some (route (Some ''post'') [''/accounts/v1/sessions/logout'']
        [ParseBodyAllowBlank, Handler HandlePostSessionsLogout])"
    using sessions_routes(1)[of ?logout] pre1 by simp
  have rm: "routeMatches (route (Some ''post'') [''/accounts/v1/sessions/logout'']
        [ParseBodyAllowBlank, Handler HandlePostSessionsLogout]) ?logout"
    using literal_route_matches[of ?logout "''/accounts/v1/sessions/logout''"] pre1 by simp
  have sent: "runStack sampleJson sampleHandlers
      [ParseBodyAllowBlank, Handler HandlePostSessionsLogout] ?logout =
      (Sent, [ParseBodyAllowBlank, Handler HandlePostSessionsLogout])"
    using logout_accepts_blank_body[where req = ?logout and json = sampleJson
        and handlers = sampleHandlers and b = None] pre1
    by (simp add: sampleHandlers_def)
  have d1: "dispatch sampleJson sampleHandlers register ?logout =
      (Sent, [ParseBodyAllowBlank, Handler HandlePostSessionsLogout])"
    using dispatch_first_match[OF first rm, of sampleJson sampleHandlers] sent by (simp add: route_def)
  show ?thesis
    using logout_accepts_blank_body[where req = ?refresh and json = sampleJson
        and handlers = sampleHandlers and b = "Some (JObj [])"]
      logout_accepts_blank_body[where req = ?email and json = sampleJson
        and handlers = sampleHandlers and b = None]
      pre2 pre3 ctj d1
    by simp
qed

text \<open>
  C9, as stated, fails. The path /accounts/v1/%zz matches the catch-all pattern and no
  registration handles the request, but what the star has captured does not decode: the
  router fails the request with its decode error, which is no BadRequest of the code
  ACCOUNTS-UNKNOWN-ENDPOINT, and the catch-all handler does not run.
\<close>

theorem malformed_escape_is_not_unknown_endpoint:
  "dispatch sampleJson sampleHandlers register
     (accountsRequest ''GET'' ''/accounts/v1/%zz'' [] None) =
     (Fail (failedToDecode ''%zz''), []) \<and>
   pathMatches ''/accounts/v1/*'' ''/accounts/v1/%zz'' \<and>
   filter (\<lambda>rt. routeMatches rt (accountsRequest ''GET'' ''/accounts/v1/%zz'' [] None)) register = [] \<and>
   \<not> isBadRequest (failedToDecode ''%zz'') \<and>
   subcode (failedToDecode ''%zz'') = None"
  by (simp add: route_eval accounts_sample_defs failedToDecode_def)

text \<open>
  C9, amended. A request at which the router does not stop before the catch-all, and whose
  path matches the catch-all with a capture that decodes, is failed with the BadRequest
  error of code ACCOUNTS-UNKNOWN-ENDPOINT; where the capture does not decode, the request
  is failed with the decode error of the router and no handler runs. Every path that
  starts with /accounts/v1/ matches the catch-all pattern, the capture being the rest of
  the path. No request whose path matches the catch-all pattern leaves the accounts
  module through \<open>next()\<close>, for whatever is mounted after it, as long as handlers that
  hand a request on leave its path alone: it is answered or failed inside the module.
\<close>

theorem unknown_accounts_endpoint:
  "(layerMatch catchAll (reqPath req) = Matched \<and>
    (\<forall>rt \<in> set (butlast register). \<not> routeStops rt req) \<longrightarrow>
      dispatch json handlers register req = (Fail (unknownEndpoint req), [UnknownEndpoint])) \<and>
   isBadRequest (unknownEndpoint req) \<and>
   subcode (unknownEndpoint req) = Some ''ACCOUNTS-UNKNOWN-ENDPOINT'' \<and>
   (layerMatch catchAll (reqPath req) = DecodeFailed v \<and>
    (\<forall>rt \<in> set (butlast register). \<not> routeStops rt req) \<longrightarrow>
      dispatch json handlers register req = (Fail (failedToDecode v), [])) \<and>
   last register = catchAll \<and>
   layerMatch catchAll (''/accounts/v1/'' @ rest) =
     (if decodes rest then Matched else DecodeFailed rest) \<and>
   (keepsPath handlers \<and> layerMatch catchAll (reqPath req) \<noteq> NoMatch \<longrightarrow>
      (\<forall>q. fst (dispatch json handlers register req) \<noteq> Next q))"
proof -
  have skip: "dispatch json handlers register req = dispatch json handlers [catchAll] req"
    if "\<forall>rt \<in> set (butlast register). \<not> routeStops rt req"
    using dispatch_skip[OF that, of json handlers "[catchAll]"] register_split by simp
  have one: "dispatch json handlers register req = (Fail (unknownEndpoint req), [UnknownEndpoint])"
    if "layerMatch catchAll (reqPath req) = Matched"
      "\<forall>rt \<in> set (butlast register). \<not> routeStops rt req"
    unfolding skip[OF that(2)] dispatch_catchAll using that(1) by simp
  have two: "dispatch json handlers register req = (Fail (failedToDecode v), [])"
    if "layerMatch catchAll (reqPath req) = DecodeFailed v"
      "\<forall>rt \<in> set (butlast register). \<not> routeStops rt req"
    unfolding skip[OF that(2)] dispatch_catchAll using that(1) by simp
  have three: "fst (dispatch json handlers register req) \<noteq> Next q"
    if "keepsPath handlers" "layerMatch catchAll (reqPath req) \<noteq> NoMatch" for q
    using dispatch_never_falls_through[OF that, of json "butlast register" q] register_split
    by simp
  have lst: "last register = catchAll"
    by (simp add: register_def catchAll_def)
  show ?thesis
    using one two three lst catchall_layer[of rest] by (simp add: unknownEndpoint_def)
qed

theorem unknown_accounts_endpoint_witness:
  "dispatch sampleJson sampleHandlers register
     (accountsRequest ''GET'' ''/accounts/v1/nowhere'' [] None) =
     (Fail (BadRequest ''Unknown Endpoint: GET /accounts/v1/nowhere'' (Some ''ACCOUNTS-UNKNOWN-ENDPOINT'')),
      [UnknownEndpoint]) \<and>
   dispatch sampleJson sampleHandlers register
     (accountsRequest ''GET'' ''/accounts/v1/%zz'' [] None) = (Fail (failedToDecode ''%zz''), []) \<and>
   fst (dispatch sampleJson sampleHandlers register
     (accountsRequest ''GET'' ''/accounts/v1/users/7'' [] None)) = Sent"
proof -
  let ?nowhere = "accountsRequest ''GET'' ''/accounts/v1/nowhere'' [] None"
  let ?bad = "accountsRequest ''GET'' ''/accounts/v1/%zz'' [] None"
  let ?user = "accountsRequest ''GET'' ''/accounts/v1/users/7'' [] None"
  have pre: "layerMatch catchAll (reqPath ?nowhere) = Matched \<and>
      (\<forall>rt \<in> set (butlast register). \<not> routeStops rt ?nowhere)"
    using catchall_layer[of "''nowhere''"]
    by (simp add: route_eval accounts_sample_defs)
  have bad: "layerMatch catchAll (reqPath ?bad) = DecodeFailed ''%zz'' \<and>
      (\<forall>rt \<in> set (butlast register). \<not> routeStops rt ?bad)"
    using catchall_layer[of "''%zz''"]
    by (simp add: route_eval accounts_sample_defs)
  have keeps: "keepsPath sampleHandlers \<and> layerMatch catchAll (reqPath ?user) \<noteq> NoMatch"
    using catchall_layer[of "''users/7''"]
    by (simp add: keepsPath_def accounts_sample_defs)
  have user: "fst (dispatch sampleJson sampleHandlers register ?user) = Sent"
    by (simp add: route_eval accounts_sample_defs)
  show ?thesis
    using unknown_accounts_endpoint[where req = ?nowhere and json = sampleJson
        and handlers = sampleHandlers]
      unknown_accounts_endpoint[where req = ?bad and json = sampleJson
        and handlers = sampleHandlers and v = "''%zz''"]
      unknown_accounts_endpoint[where req = ?user
        and json = sampleJson and handlers = sampleHandlers] pre bad keeps user
    by (simp add: unknownEndpoint_def accounts_sample_defs)
qed

section \<open>Properties of the mock cache\<close>

text \<open>
  C4, as stated, fails on \<open>mockCache\<close>. A first \<open>get\<close> for key k starts computation 0;
  nothing has awaited it when a second \<open>get\<close> for k is made, and that second \<open>get\<close>
  calls the compute function again: it starts computation 1, and two calls have been made.
\<close>

theorem mockCache_get_computes_again:
  "mockCache_get ''k'' startJob None 0 = (0, 1) \<and>
   mockCache_get ''k'' startJob None (snd (mockCache_get ''k'' startJob None 0)) = (1, 2)"
  by (simp add: mockCache_get_def startJob_def)

text \<open>
  C4, amended. \<open>mockCache.get\<close> calls the compute function on every call and returns
  what it returns, whatever the key and whatever is in flight; \<open>clear\<close> changes
  nothing. So over any sequence of calls on the cache the compute function has been
  called once for every \<open>get\<close>: a \<open>get\<close> after a \<open>clear\<close> recomputes, as every \<open>get\<close> does.
\<close>

theorem mockCache_always_computes:
  "mockCache_get k v ttl s = v s \<and>
   mockCache_clear k' s = ((), s) \<and>
   snd (runCache (\<lambda>k. startJob) ops n) = n + length (filter isGet ops)"
  by (simp add: mockCache_get_def mockCache_clear_def runCache_counts)

theorem mockCache_always_computes_witness:
  "runCache (\<lambda>k. startJob) [CacheGet ''k'', CacheGet ''k'', CacheClear (Some ''k''), CacheGet ''k''] 0 =
     ([0, 1, 2], 3)"
  using mockCache_always_computes[where ops = "[CacheGet ''k'', CacheGet ''k'', CacheClear (Some ''k''), CacheGet ''k'']"
      and n = 0]
  by (simp add: mockCache_get_def mockCache_clear_def startJob_def)

end
